theory Spec2Isabelle
  imports Main
begin

section \<open>The source artifact\<close>

text \<open>
  The repository consists of the single file \<^verbatim>\<open>src/FenicsAcoustics.ipynb\<close>. It is embedded
  byte for byte, one list entry per line of the file (the file ends without a newline after
  its last line). A backslash cannot be written inside a string literal, so every backslash
  of the file is written as a tilde, a character the file does not contain, and \<open>bsl\<close>
  puts the backslash back.
\<close>

definition bsl_char :: "char \<Rightarrow> char" where
  "bsl_char c = (if c = CHR ''~'' then CHR 0x5C else c)"

definition bsl :: "string \<Rightarrow> string" where
  "bsl = map bsl_char"

definition notebook_lines :: "string list" where
  \<open>notebook_lines = map bsl [
    ''{'',
    '' "cells": ['',
    ''  {'',
    ''   "cell_type": "markdown",'',
    ''   "metadata": {},'',
    ''   "source": ['',
    ''    "# FEniCS for acoustics~n",'',
    ''    "## Author: Ben Goldsberry~n"'',
    ''   ]'',
    ''  },'',
    ''  {'',
    ''   "cell_type": "markdown",'',
    ''   "metadata": {},'',
    ''   "source": ['',
    ''    "# Import FEniCS module~n",'',
    ''    "To import FEniCS, use:~n",'',
    ''    "```python~n",'',
    ''    "from dolfin import *~n",'',
    ''    "```"'',
    ''   ]'',
    ''  },'',
    ''  {'',
    ''   "cell_type": "markdown",'',
    ''   "metadata": {},'',
    ''   "source": ['',
    ''    "# Import mesh and define function space~n",'',
    ''    "```python~n",'',
    ''    "mesh = Mesh('mesh.xml')~n",'',
    ''    "```~n",'',
    ''    "For a scalar function (pressure acoustics)~n",'',
    ''    "```python~n",'',
    ''    "V = FunctionSpace(mesh,'CG',2)~n",'',
    ''    "p = TrialFunction(V) #pressure trial function~n",'',
    ''    "dp = TestFunction(V) #pressure test function~n",'',
    ''    "```~n",'',
    ''    "for elasticity:~n",'',
    ''    "```python~n",'',
    ''    "V = VectorFunctionSpace(mesh,'CG',2)~n",'',
    ''    "u = TrialFunction(V) #Displacement trial function~n",'',
    ''    "du = TestFunction(V) #Displacement test function~n",'',
    ''    "```~n"'',
    ''   ]'',
    ''  },'',
    ''  {'',
    ''   "cell_type": "markdown",'',
    ''   "metadata": {},'',
    ''   "source": ['',
    ''    "# Weak forms~n",'',
    ''    "## Pressure acoustics~n",'',
    ''    "The inhomogeneous Helmholtz equation for pressure is:~n",'',
    ''    "$$ ~~nabla^2p+k^2p =f$$~n",'',
    ''    "The weak form of the above equation is:~n",'',
    ''    "$$ ~~frac{k^2}{~~rho}~~int ~~limits_~~Omega  p ~~delta p ~~, d ~~Omega - ~~frac{1}{~~rho}~~int ~~limits_~~Omega ~~nabla p ~~cdot ~~nabla ~~delta p ~~,d ~~Omega + ~~frac{1}{~~rho}~~int ~~limits_{~~Gamma_N} ~~delta p (~~nabla p ~~cdot n) ~~,d~~Gamma_N =~~frac{1}{~~rho}~~int ~~limits_~~Omega f~~delta p ~~, d ~~Omega     ~~~~~n",'',
    ''    "p = 0 ~~quad ~~text{on} ~~quad ~~Gamma_D$$~n",'',
    ''    "This is written is FEniCs as~n",'',
    ''    "```python~n",'',
    ''    "n = FacetNormal(mesh)~n",'',
    ''    "StiffnessMatrix = 1/rho*dot(grad(p),grad(dp))*dx~n",'',
    ''    "MassMatrix = 1/rho*p*dp*dx~n",'',
    ''    "NeumannBC = 1/rho*dp*dot(p,n)*ds~n",'',
    ''    "forcingFcn = 1/rho*dp*f*dx~n",'',
    ''    "WeakForm = -Stiffness + k^2*MassMatrix + NeumannBC~n",'',
    ''    "```~n",'',
    ''    "## Linear Elasticity~n",'',
    ''    "The stiffness tensor is~n",'',
    ''    "$$ C_{ijkl} = K~~delta_{ij}~~delta_{kl} +~~mu(~~delta_{ik}~~delta_{jl} +~~delta_{il}~~delta_{jk} -~~frac{2}{3}~~delta_{ij}~~delta_{kl})$$~n",'',
    ''    "In FEniCS, this is implemented as:~n",'',
    ''    "```python~n",'',
    ''    "I = identity(2)# Second order identity tensor~n",'',
    ''    "C = as_tensor(K*I[i,j]*I[k,l] + mu*(I[i,k]*I[j,l] + I[i,l]*I[j,k] - 2./3*I[i,j]*I[k,l],(i,j,k,l))~n",'',
    ''    "```~n",'',
    ''    "The weak form of linear elasticity is:~n",'',
    ''    "$$ ~~int ~~limits_~~Omega [~~sigma(u)_{ij}~~varepsilon(~~delta u)_{ij} - ~~omega^2~~rho ~~delta u_i u_i] ~~,d~~Omega -~~int ~~limits_~~Gamma ~~sigma_{ij}n_j~~delta u_i ~~,d ~~Gamma=0$$~n",'',
    ''    "This is implemented in FEniCS as:~n",'',
    ''    "```python~n",'',
    ''    "StrainU = 0.5*(grad(u)+transpose(grad(u))) = sym(grad(u))~n",'',
    ''    "StrainDu = 0.5*(grad(du)+transpose(grad(du)))~n",'',
    ''    "StressU = as_tensor(C[i,j,k,l]*StrainU[k,l],(i,j))~n",'',
    ''    "WeakForm = inner(StressU,StrainDu)*dx - omega**2*rho*dot(u,du)*dx - p*dot(du,n)*ds~n",'',
    ''    "```"'',
    ''   ]'',
    ''  },'',
    ''  {'',
    ''   "cell_type": "markdown",'',
    ''   "metadata": {},'',
    ''   "source": ['',
    ''    "## Nonlinear Elasticity~n",'',
    ''    "```python~n",'',
    ''    "F = grad(u)+I~n",'',
    ''    "C = F.T*F #Right Cauchy-Green tensor~n",'',
    ''    "E = 0.5*(C-I) #Finite Strain tensor~n",'',
    ''    "W = lmbda/2*tr(E)**2+mu*tr(E*E) # St. Venant-Kirchhoff Strain-energy density~n",'',
    ''    "E = variable(E)~n",'',
    ''    "S = diff(W,E) #Second Piola-Stress tensor~n",'',
    ''    "```"'',
    ''   ]'',
    ''  },'',
    ''  {'',
    ''   "cell_type": "markdown",'',
    ''   "metadata": {},'',
    ''   "source": ['',
    ''    "## Subdomains~n",'',
    ''    "```python~n",'',
    ''    "class GammaN(SubDomain):~n",'',
    ''    "    def inside(self, x, on_boundary):~n",'',
    ''    "        tol = 1E-14~n",'',
    ''    "        return on_boundary and near(x[0], 0, tol)~n",'',
    ''    "        ~n",'',
    ''    "class GammaD(SubDomain):~n",'',
    ''    "    def inside(self, x, on_boundary):~n",'',
    ''    "        tol = 1E-14~n",'',
    ''    "        return on_boundary and near(x[0], 0, tol)~n",'',
    ''    "NeumannBoundary = GammaN()~n",'',
    ''    "DirichletBoundary = GammaD()~n",'',
    ''    "boundary_markers = FacetFunction('size_t', mesh)~n",'',
    ''    "boundary_markers.set_all(0)~n",'',
    ''    "DirichletBoundary.mark(boundary_markers,1)~n",'',
    ''    "NeumannBoundary.mark(boundary_markers,2)~n",'',
    ''    "ds = Measure('ds', domain=mesh, subdomain_data=boundary_markers)~n",'',
    ''    "bc = DirichletBC(V,Constant(0.0),DirichletBoundary)~n",'',
    ''    "```"'',
    ''   ]'',
    ''  },'',
    ''  {'',
    ''   "cell_type": "markdown",'',
    ''   "metadata": {},'',
    ''   "source": ['',
    ''    "## Solving and plotting~n",'',
    ''    "```python~n",'',
    ''    "solve(WeakForm==forcingFcn,u,bc)~n",'',
    ''    "file = File(~"u.pvd~")~n",'',
    ''    "file << u~n",'',
    ''    "plot(u)~n",'',
    ''    "```"'',
    ''   ]'',
    ''  },'',
    ''  {'',
    ''   "cell_type": "code",'',
    ''   "execution_count": null,'',
    ''   "metadata": {'',
    ''    "collapsed": true'',
    ''   },'',
    ''   "outputs": [],'',
    ''   "source": []'',
    ''  }'',
    '' ],'',
    '' "metadata": {'',
    ''  "kernelspec": {'',
    ''   "display_name": "Python 2",'',
    ''   "language": "python",'',
    ''   "name": "python2"'',
    ''  },'',
    ''  "language_info": {'',
    ''   "codemirror_mode": {'',
    ''    "name": "ipython",'',
    ''    "version": 2'',
    ''   },'',
    ''   "file_extension": ".py",'',
    ''   "mimetype": "text/x-python",'',
    ''   "name": "python",'',
    ''   "nbconvert_exporter": "python",'',
    ''   "pygments_lexer": "ipython2",'',
    ''   "version": "2.7.12"'',
    ''  }'',
    '' },'',
    '' "nbformat": 4,'',
    '' "nbformat_minor": 1'',
    ''}''
  ]\<close>

section \<open>Characters\<close>

text \<open>
  Characters are compared by their code, most significant bit first. The classes below are
  the ASCII ranges that the JSON and the Python lexical rules speak of.
\<close>

definition bits_of :: "char \<Rightarrow> bool list" where
  "bits_of c = [digit7 c, digit6 c, digit5 c, digit4 c, digit3 c, digit2 c, digit1 c, digit0 c]"

fun bits_le :: "bool list \<Rightarrow> bool list \<Rightarrow> bool" where
  "bits_le (False # as) (True # bs) = True"
| "bits_le (True # as) (False # bs) = False"
| "bits_le (False # as) (False # bs) = bits_le as bs"
| "bits_le (True # as) (True # bs) = bits_le as bs"
| "bits_le as bs = True"

definition char_le :: "char \<Rightarrow> char \<Rightarrow> bool" where
  "char_le c d = bits_le (bits_of c) (bits_of d)"

definition in_range :: "char \<Rightarrow> char \<Rightarrow> char \<Rightarrow> bool" where
  "in_range lo hi c = (char_le lo c \<and> char_le c hi)"

definition is_digit :: "char \<Rightarrow> bool" where
  "is_digit = in_range (CHR ''0'') (CHR ''9'')"

definition is_lower :: "char \<Rightarrow> bool" where
  "is_lower = in_range (CHR ''a'') (CHR ''z'')"

definition is_upper :: "char \<Rightarrow> bool" where
  "is_upper = in_range (CHR ''A'') (CHR ''Z'')"

definition is_control :: "char \<Rightarrow> bool" where
  "is_control c = (\<not> digit7 c \<and> \<not> digit6 c \<and> \<not> digit5 c)"

definition is_space :: "char \<Rightarrow> bool" where
  "is_space c = (c = CHR '' '' \<or> c = CHR 0x0A \<or> c = CHR 0x0D \<or> c = CHR 0x09)"

section \<open>JSON documents\<close>

text \<open>
  A notebook is a JSON document. The reader below follows the JSON grammar (RFC 8259) in
  two passes: a scanner that turns characters into tokens, and a pushdown automaton that
  builds the document from the tokens. No JSON token contains a line break (a string
  has to escape it), so the scanner works on one line at a time and the tokens of the
  lines are put together. An integer literal is read as an integer and any other number
  keeps its text, as Python's \<^verbatim>\<open>json\<close> module separates \<^verbatim>\<open>int\<close> from \<^verbatim>\<open>float\<close>.
\<close>

datatype json =
    JNull
  | JBool bool
  | JInt int
  | JFloat string
  | JStr string
  | JArr "json list"
  | JObj "(string \<times> json) list"

datatype token =
    LBrace | RBrace | LBrack | RBrack | Colon | Comma
  | TStr string | TNum string | TWord string | TBad

datatype lexmode =
    Top
  | InStr string
  | InEsc string
  | InUni string string
  | InNum string
  | InWord string
  | Failed

datatype cclass =
    CSpace | CPunct token | CQuote | CNumStart | CLower | COther

definition classify :: "char \<Rightarrow> cclass" where
  "classify c =
     (if is_space c then CSpace
      else if c = CHR 0x22 then CQuote
      else if c = CHR '','' then CPunct Comma
      else if c = CHR '':'' then CPunct Colon
      else if c = CHR ''{'' then CPunct LBrace
      else if c = CHR ''}'' then CPunct RBrace
      else if c = CHR ''['' then CPunct LBrack
      else if c = CHR '']'' then CPunct RBrack
      else if c = CHR ''-'' \<or> is_digit c then CNumStart
      else if is_lower c then CLower
      else COther)"

fun top_char :: "token list \<Rightarrow> char \<Rightarrow> cclass \<Rightarrow> lexmode \<times> token list" where
  "top_char ts c CSpace = (Top, ts)"
| "top_char ts c (CPunct t) = (Top, t # ts)"
| "top_char ts c CQuote = (InStr [], ts)"
| "top_char ts c CNumStart = (InNum [c], ts)"
| "top_char ts c CLower = (InWord [c], ts)"
| "top_char ts c COther = (Failed, ts)"

datatype sclass = SQuote | SBackslash | SControl | SPlain

definition str_class :: "char \<Rightarrow> sclass" where
  "str_class c =
     (if c = CHR 0x22 then SQuote
      else if c = CHR 0x5C then SBackslash
      else if is_control c then SControl
      else SPlain)"

fun str_char :: "string \<Rightarrow> token list \<Rightarrow> char \<Rightarrow> sclass \<Rightarrow> lexmode \<times> token list" where
  "str_char acc ts c SQuote = (Top, TStr (rev acc) # ts)"
| "str_char acc ts c SBackslash = (InEsc acc, ts)"
| "str_char acc ts c SControl = (Failed, ts)"
| "str_char acc ts c SPlain = (InStr (c # acc), ts)"

datatype eclass = EChar char | EUni | EBad

definition esc_class :: "char \<Rightarrow> eclass" where
  "esc_class c =
     (if c = CHR 0x22 \<or> c = CHR 0x5C \<or> c = CHR ''/'' then EChar c
      else if c = CHR ''n'' then EChar (CHR 0x0A)
      else if c = CHR ''t'' then EChar (CHR 0x09)
      else if c = CHR ''r'' then EChar (CHR 0x0D)
      else if c = CHR ''b'' then EChar (CHR 0x08)
      else if c = CHR ''f'' then EChar (CHR 0x0C)
      else if c = CHR ''u'' then EUni
      else EBad)"

fun esc_char :: "string \<Rightarrow> token list \<Rightarrow> eclass \<Rightarrow> lexmode \<times> token list" where
  "esc_char acc ts (EChar d) = (InStr (d # acc), ts)"
| "esc_char acc ts EUni = (InUni acc [], ts)"
| "esc_char acc ts EBad = (Failed, ts)"

text \<open>
  A \<^verbatim>\<open>\uXXXX\<close> escape: four hexadecimal digits, stored as the UTF-8 bytes of the code
  point (most significant byte last in the reversed accumulator). Half of a surrogate
  pair is refused.
\<close>

definition hex_val :: "char \<Rightarrow> nat option" where
  "hex_val c =
     (if is_digit c then Some (of_char c - 48)
      else if in_range (CHR ''a'') (CHR ''f'') c then Some (of_char c - 87)
      else if in_range (CHR ''A'') (CHR ''F'') c then Some (of_char c - 55)
      else None)"

fun hex_add :: "nat option \<Rightarrow> nat option \<Rightarrow> nat option" where
  "hex_add (Some a) (Some d) = Some (16 * a + d)"
| "hex_add _ _ = None"

fun hex_num :: "nat option \<Rightarrow> string \<Rightarrow> nat option" where
  "hex_num a [] = a"
| "hex_num a (c # cs) = hex_num (hex_add a (hex_val c)) cs"

definition utf8_rev :: "nat \<Rightarrow> string option" where
  "utf8_rev n =
     (if n < 128 then Some [char_of n]
      else if n < 2048 then Some [char_of (128 + n mod 64), char_of (192 + n div 64)]
      else if 55296 \<le> n \<and> n < 57344 then None
      else Some [char_of (128 + n mod 64), char_of (128 + (n div 64) mod 64),
                 char_of (224 + n div 4096)])"

fun uni_done :: "string \<Rightarrow> token list \<Rightarrow> string option \<Rightarrow> lexmode \<times> token list" where
  "uni_done acc ts None = (Failed, ts)"
| "uni_done acc ts (Some bs) = (InStr (bs @ acc), ts)"

fun uni_char :: "string \<Rightarrow> string \<Rightarrow> token list \<Rightarrow> nat option \<Rightarrow> lexmode \<times> token list" where
  "uni_char acc hs ts None = (Failed, ts)"
| "uni_char acc [a, b, c, d] ts (Some n) = uni_done acc ts (utf8_rev n)"
| "uni_char acc hs ts (Some n) = (InUni acc hs, ts)"

datatype nclass = NMore | NEnd

definition num_class :: "char \<Rightarrow> nclass" where
  "num_class c =
     (if is_digit c \<or> c = CHR ''.'' \<or> c = CHR ''e'' \<or> c = CHR ''E'' \<or> c = CHR ''+'' \<or> c = CHR ''-''
      then NMore else NEnd)"

fun num_char :: "string \<Rightarrow> token list \<Rightarrow> char \<Rightarrow> nclass \<Rightarrow> lexmode \<times> token list" where
  "num_char acc ts c NMore = (InNum (c # acc), ts)"
| "num_char acc ts c NEnd = top_char (TNum (rev acc) # ts) c (classify c)"

fun word_char :: "string \<Rightarrow> token list \<Rightarrow> char \<Rightarrow> bool \<Rightarrow> lexmode \<times> token list" where
  "word_char acc ts c True = (InWord (c # acc), ts)"
| "word_char acc ts c False = top_char (TWord (rev acc) # ts) c (classify c)"

fun lex_step :: "lexmode \<times> token list \<Rightarrow> char \<Rightarrow> lexmode \<times> token list" where
  "lex_step (Top, ts) c = top_char ts c (classify c)"
| "lex_step (InStr acc, ts) c = str_char acc ts c (str_class c)"
| "lex_step (InEsc acc, ts) c = esc_char acc ts (esc_class c)"
| "lex_step (InUni acc hs, ts) c = uni_char acc (hs @ [c]) ts (hex_num (Some 0) (hs @ [c]))"
| "lex_step (InNum acc, ts) c = num_char acc ts c (num_class c)"
| "lex_step (InWord acc, ts) c = word_char acc ts c (is_lower c)"
| "lex_step (Failed, ts) c = (Failed, ts)"

fun lex_run :: "lexmode \<times> token list \<Rightarrow> string \<Rightarrow> lexmode \<times> token list" where
  "lex_run st [] = st"
| "lex_run st (c # cs) = lex_run (lex_step st c) cs"

text \<open>At the end of a line a number or a word is complete; an open string is an error.\<close>

fun lex_end :: "lexmode \<times> token list \<Rightarrow> token list" where
  "lex_end (Top, ts) = rev ts"
| "lex_end (InNum acc, ts) = rev (TNum (rev acc) # ts)"
| "lex_end (InWord acc, ts) = rev (TWord (rev acc) # ts)"
| "lex_end (_, ts) = [TBad]"

definition lex_line :: "string \<Rightarrow> token list" where
  "lex_line l = lex_end (lex_run (Top, []) l)"

fun lex_lines :: "string list \<Rightarrow> token list" where
  "lex_lines [] = []"
| "lex_lines (l # ls) = lex_line l @ lex_lines ls"

subsection \<open>Numbers and literal names\<close>

text \<open>The grammar of a number is \<^verbatim>\<open>-? (0 | [1-9][0-9]*) (. [0-9]+)? ([eE] [+-]? [0-9]+)?\<close>.\<close>

datatype numstate =
    NStart | NSign | NZero | NInt | NDot | NFrac | NExp | NExpSign | NExpDigits | NBad

definition num_step :: "numstate \<Rightarrow> char \<Rightarrow> numstate" where
  "num_step s c =
     (if s = NStart \<and> c = CHR ''-'' then NSign
      else if (s = NStart \<or> s = NSign) \<and> c = CHR ''0'' then NZero
      else if (s = NStart \<or> s = NSign \<or> s = NInt) \<and> is_digit c then NInt
      else if (s = NZero \<or> s = NInt) \<and> c = CHR ''.'' then NDot
      else if (s = NDot \<or> s = NFrac) \<and> is_digit c then NFrac
      else if (s = NZero \<or> s = NInt \<or> s = NFrac) \<and> (c = CHR ''e'' \<or> c = CHR ''E'') then NExp
      else if s = NExp \<and> (c = CHR ''+'' \<or> c = CHR ''-'') then NExpSign
      else if (s = NExp \<or> s = NExpSign \<or> s = NExpDigits) \<and> is_digit c then NExpDigits
      else NBad)"

fun num_run :: "numstate \<Rightarrow> string \<Rightarrow> numstate" where
  "num_run s [] = s"
| "num_run s (c # cs) = num_run (num_step s c) cs"

definition digit_val :: "char \<Rightarrow> int" where
  "digit_val c = of_char c - 48"

fun dec_num :: "int \<Rightarrow> string \<Rightarrow> int" where
  "dec_num a [] = a"
| "dec_num a (c # cs) = dec_num (10 * a + digit_val c) cs"

fun int_of_literal :: "string \<Rightarrow> int" where
  "int_of_literal [] = 0"
| "int_of_literal (c # cs) = (if c = CHR ''-'' then - dec_num 0 cs else dec_num 0 (c # cs))"

fun num_json :: "string \<Rightarrow> numstate \<Rightarrow> json option" where
  "num_json s NZero = Some (JInt (int_of_literal s))"
| "num_json s NInt = Some (JInt (int_of_literal s))"
| "num_json s NFrac = Some (JFloat s)"
| "num_json s NExpDigits = Some (JFloat s)"
| "num_json s _ = None"

definition word_json :: "string \<Rightarrow> json option" where
  "word_json w =
     (if w = ''true'' then Some (JBool True)
      else if w = ''false'' then Some (JBool False)
      else if w = ''null'' then Some JNull
      else None)"

subsection \<open>The parser\<close>

text \<open>
  The parser keeps a stack of the arrays and objects that are open, innermost first, with
  their elements so far in reverse. \<open>PVal\<close> expects a value, \<open>PFirst\<close> a value or the end
  of the array just opened, \<open>PKeyOrEnd\<close> a key or the end of the object just opened,
  \<open>PKey\<close> a key, \<open>PColon\<close> the colon after a key and \<open>PNext\<close> a comma or the end of the
  innermost container.
\<close>

datatype frame =
    FArr "json list"
  | FObj "(string \<times> json) list"
  | FKey "(string \<times> json) list" string

datatype pstate =
    PVal "frame list"
  | PFirst "frame list"
  | PKeyOrEnd "frame list"
  | PKey "frame list"
  | PColon "frame list"
  | PNext "frame list"
  | PDone json
  | PErr

fun give :: "frame list \<Rightarrow> json \<Rightarrow> pstate" where
  "give [] v = PDone v"
| "give (FArr vs # st) v = PNext (FArr (v # vs) # st)"
| "give (FKey kvs k # st) v = PNext (FObj ((k, v) # kvs) # st)"
| "give (FObj kvs # st) v = PErr"

fun give_opt :: "frame list \<Rightarrow> json option \<Rightarrow> pstate" where
  "give_opt st None = PErr"
| "give_opt st (Some v) = give st v"

fun start_value :: "frame list \<Rightarrow> token \<Rightarrow> pstate" where
  "start_value st (TStr s) = give st (JStr s)"
| "start_value st (TNum s) = give_opt st (num_json s (num_run NStart s))"
| "start_value st (TWord w) = give_opt st (word_json w)"
| "start_value st LBrack = PFirst (FArr [] # st)"
| "start_value st LBrace = PKeyOrEnd (FObj [] # st)"
| "start_value st _ = PErr"

fun take_key :: "frame list \<Rightarrow> token \<Rightarrow> pstate" where
  "take_key (FObj kvs # st) (TStr k) = PColon (FKey kvs k # st)"
| "take_key _ _ = PErr"

fun close_frame :: "frame list \<Rightarrow> token \<Rightarrow> pstate" where
  "close_frame (FArr vs # st) RBrack = give st (JArr (rev vs))"
| "close_frame (FObj kvs # st) RBrace = give st (JObj (rev kvs))"
| "close_frame _ _ = PErr"

fun next_item :: "frame list \<Rightarrow> token \<Rightarrow> pstate" where
  "next_item (FArr vs # st) Comma = PVal (FArr vs # st)"
| "next_item (FObj kvs # st) Comma = PKey (FObj kvs # st)"
| "next_item st t = close_frame st t"

fun pstep :: "pstate \<Rightarrow> token \<Rightarrow> pstate" where
  "pstep (PVal st) t = start_value st t"
| "pstep (PFirst st) RBrack = close_frame st RBrack"
| "pstep (PFirst st) t = start_value st t"
| "pstep (PKeyOrEnd st) RBrace = close_frame st RBrace"
| "pstep (PKeyOrEnd st) t = take_key st t"
| "pstep (PKey st) t = take_key st t"
| "pstep (PColon st) Colon = PVal st"
| "pstep (PColon st) t = PErr"
| "pstep (PNext st) t = next_item st t"
| "pstep (PDone v) t = PErr"
| "pstep PErr t = PErr"

fun parse_run :: "pstate \<Rightarrow> token list \<Rightarrow> pstate" where
  "parse_run s [] = s"
| "parse_run s (t # ts) = parse_run (pstep s t) ts"

fun parse_end :: "pstate \<Rightarrow> json option" where
  "parse_end (PDone v) = Some v"
| "parse_end _ = None"

definition parse_json :: "string list \<Rightarrow> json option" where
  "parse_json ls = parse_end (parse_run (PVal []) (lex_lines ls))"

text \<open>Reading a member of an object; of two members with one name the later one counts.\<close>

fun assoc :: "string \<Rightarrow> (string \<times> json) list \<Rightarrow> json option \<Rightarrow> json option" where
  "assoc k [] r = r"
| "assoc k ((k', v) # kvs) r = assoc k kvs (if k = k' then Some v else r)"

fun member :: "string \<Rightarrow> json \<Rightarrow> json option" where
  "member k (JObj kvs) = assoc k kvs None"
| "member k _ = None"

section \<open>Notebook cells and the code fragments embedded in them\<close>

text \<open>
  In notebook format 4 the document is an object with the members \<^verbatim>\<open>cells\<close>,
  \<^verbatim>\<open>metadata\<close>, \<^verbatim>\<open>nbformat\<close> and \<^verbatim>\<open>nbformat_minor\<close>; a cell is an object with a
  \<^verbatim>\<open>cell_type\<close> and a \<^verbatim>\<open>source\<close>, which is one string or a list of strings to be
  joined.
\<close>

fun strings_of :: "json list \<Rightarrow> string list option" where
  "strings_of [] = Some []"
| "strings_of (JStr s # js) = map_option ((#) s) (strings_of js)"
| "strings_of (_ # js) = None"

fun source_text :: "json option \<Rightarrow> string option" where
  "source_text (Some (JStr s)) = Some s"
| "source_text (Some (JArr js)) = map_option concat (strings_of js)"
| "source_text _ = None"

fun cells_of :: "json option \<Rightarrow> json list option" where
  "cells_of (Some (JArr cs)) = Some cs"
| "cells_of _ = None"

definition well_formed_cell :: "json \<Rightarrow> bool" where
  "well_formed_cell c = (member ''cell_type'' c \<noteq> None \<and> member ''source'' c \<noteq> None)"

fun well_formed_cells :: "json list option \<Rightarrow> bool" where
  "well_formed_cells None = False"
| "well_formed_cells (Some cs) = list_all well_formed_cell cs"

fun well_formed_notebook :: "json option \<Rightarrow> bool" where
  "well_formed_notebook None = False"
| "well_formed_notebook (Some doc) =
     (well_formed_cells (cells_of (member ''cells'' doc))
      \<and> member ''nbformat'' doc = Some (JInt 4))"

text \<open>The lines of a text: the text is cut at every line feed, as \<^verbatim>\<open>str.split('\n')\<close> does.\<close>

fun split_step :: "string \<times> string list \<Rightarrow> char \<Rightarrow> bool \<Rightarrow> string \<times> string list" where
  "split_step (cur, done) c True = ([], rev cur # done)"
| "split_step (cur, done) c False = (c # cur, done)"

fun split_run :: "string \<times> string list \<Rightarrow> string \<Rightarrow> string \<times> string list" where
  "split_run st [] = st"
| "split_run st (c # cs) = split_run (split_step st c (c = CHR 0x0A)) cs"

fun split_end :: "string \<times> string list \<Rightarrow> string list" where
  "split_end (cur, done) = rev (rev cur # done)"

definition split_lines :: "string \<Rightarrow> string list" where
  "split_lines s = split_end (split_run ([], []) s)"

text \<open>
  A fenced code block of a markdown cell starts at a line that begins with three backquotes,
  followed by the name of the language, and ends at the next line of three backquotes (or
  with the cell). The code fragments of the notebook are the blocks whose language is
  \<^verbatim>\<open>python\<close>, and the sources of the code cells that are not empty.
\<close>

datatype fence = Outside | Inside bool "string list"

definition fence_mark :: string where
  "fence_mark = [CHR 0x60, CHR 0x60, CHR 0x60]"

fun strip_right :: "string \<Rightarrow> string" where
  "strip_right s = rev (dropWhile is_space (rev s))"

fun open_fence :: "string list list \<Rightarrow> string \<Rightarrow> bool \<Rightarrow> fence \<times> string list list" where
  "open_fence done l True = (Inside (strip_right (drop 3 l) = ''python'') [], done)"
| "open_fence done l False = (Outside, done)"

fun close_fence ::
  "bool \<Rightarrow> string list \<Rightarrow> string list list \<Rightarrow> string \<Rightarrow> bool \<Rightarrow> fence \<times> string list list" where
  "close_fence True acc done l True = (Outside, rev acc # done)"
| "close_fence False acc done l True = (Outside, done)"
| "close_fence py acc done l False = (Inside py (l # acc), done)"

fun fence_step :: "fence \<times> string list list \<Rightarrow> string \<Rightarrow> fence \<times> string list list" where
  "fence_step (Outside, done) l = open_fence done l (take 3 l = fence_mark)"
| "fence_step (Inside py acc, done) l = close_fence py acc done l (strip_right l = fence_mark)"

fun fence_run :: "fence \<times> string list list \<Rightarrow> string list \<Rightarrow> fence \<times> string list list" where
  "fence_run st [] = st"
| "fence_run st (l # ls) = fence_run (fence_step st l) ls"

fun fence_end :: "fence \<times> string list list \<Rightarrow> string list list" where
  "fence_end (Inside True acc, done) = rev (rev acc # done)"
| "fence_end (_, done) = rev done"

definition fenced_python :: "string \<Rightarrow> string list list" where
  "fenced_python text = fence_end (fence_run (Outside, []) (split_lines text))"

fun code_source :: "string \<Rightarrow> string list list" where
  "code_source [] = []"
| "code_source text = [split_lines text]"

fun snippets_of_source :: "json option \<Rightarrow> string option \<Rightarrow> string list list" where
  "snippets_of_source (Some (JStr ty)) (Some text) =
     (if ty = ''markdown'' then fenced_python text
      else if ty = ''code'' then code_source text
      else [])"
| "snippets_of_source _ _ = []"

definition cell_snippets :: "json \<Rightarrow> string list list" where
  "cell_snippets c = snippets_of_source (member ''cell_type'' c) (source_text (member ''source'' c))"

fun cells_snippets :: "json list option \<Rightarrow> string list list" where
  "cells_snippets None = []"
| "cells_snippets (Some cs) = concat (map cell_snippets cs)"

fun doc_snippets :: "json option \<Rightarrow> string list list" where
  "doc_snippets None = []"
| "doc_snippets (Some doc) = cells_snippets (cells_of (member ''cells'' doc))"

definition notebook_doc :: "json option" where
  "notebook_doc = parse_json notebook_lines"

definition notebook_snippets :: "string list list" where
  "notebook_snippets = doc_snippets notebook_doc"

section \<open>Python tokens\<close>

text \<open>
  The code fragments are Python 2 source (the notebook's kernel is \<^verbatim>\<open>python2\<close>). A line is
  cut into names, numbers, string literals and operators by the lexical rules of the
  language reference; a comment runs from \<^verbatim>\<open>#\<close> to the end of the line. String literals
  are the one-line forms; a string still open at the end of the line and a character that
  starts no token give \<open>Stray\<close>.
\<close>

datatype ptok = Name string | Number string | Str string | Op string | Stray

datatype nkind = KZero | KDec | KExp | KRadix

datatype pmode =
    MTop
  | MName string
  | MNum nkind string
  | MStr char string
  | MStrEsc char string
  | MOp string
  | MComment

datatype pclass = PSpace | PLetter | PDigit | PQuote | PHash | POpChar | PStray

definition is_letter :: "char \<Rightarrow> bool" where
  "is_letter c = (is_lower c \<or> is_upper c \<or> c = CHR ''_'')"

definition op_chars :: string where
  "op_chars = ''()[]{},:.=+-*/%<>&|^~@;!'' @ [CHR 0x60]"

definition pclass :: "char \<Rightarrow> pclass" where
  "pclass c =
     (if c = CHR '' '' \<or> c = CHR 0x09 then PSpace
      else if is_letter c then PLetter
      else if is_digit c then PDigit
      else if c = CHR 0x27 \<or> c = CHR 0x22 then PQuote
      else if c = CHR ''#'' then PHash
      else if c \<in> set op_chars then POpChar
      else PStray)"

definition operators :: "string list" where
  "operators =
     [''**'', ''//'', ''<<'', ''>>'', ''<='', ''>='', ''=='', ''!='', ''<>'',
      ''+='', ''-='', ''*='', ''/='', ''%='', ''&='', ''|='', ''^='',
      ''**='', ''//='', ''<<='', ''>>='']"

fun first_kind :: "bool \<Rightarrow> nkind" where
  "first_kind True = KZero"
| "first_kind False = KDec"

fun ptop :: "ptok list \<Rightarrow> char \<Rightarrow> pclass \<Rightarrow> pmode \<times> ptok list" where
  "ptop ts c PSpace = (MTop, ts)"
| "ptop ts c PLetter = (MName [c], ts)"
| "ptop ts c PDigit = (MNum (first_kind (c = CHR ''0'')) [c], ts)"
| "ptop ts c PQuote = (MStr c [], ts)"
| "ptop ts c PHash = (MComment, ts)"
| "ptop ts c POpChar = (MOp [c], ts)"
| "ptop ts c PStray = (MTop, Stray # ts)"

fun name_char :: "string \<Rightarrow> ptok list \<Rightarrow> char \<Rightarrow> bool \<Rightarrow> pmode \<times> ptok list" where
  "name_char acc ts c True = (MName (c # acc), ts)"
| "name_char acc ts c False = ptop (Name (rev acc) # ts) c (pclass c)"

text \<open>
  A number goes on through digits, letters and dots (\<^verbatim>\<open>0x1F\<close>, \<^verbatim>\<open>2.\<close>, \<^verbatim>\<open>10L\<close>, \<^verbatim>\<open>3j\<close>), and
  through a sign that follows the exponent letter of a decimal literal (\<^verbatim>\<open>1E-14\<close>).
\<close>

definition after_zero :: "char \<Rightarrow> nkind" where
  "after_zero c =
     (if c \<in> set ''xXoObB'' then KRadix
      else if c = CHR ''e'' \<or> c = CHR ''E'' then KExp
      else KDec)"

definition after_dec :: "char \<Rightarrow> nkind" where
  "after_dec c = (if c = CHR ''e'' \<or> c = CHR ''E'' then KExp else KDec)"

fun num_more :: "nkind \<Rightarrow> char \<Rightarrow> nkind" where
  "num_more KZero c = after_zero c"
| "num_more KDec c = after_dec c"
| "num_more KExp c = KDec"
| "num_more KRadix c = KRadix"

definition in_number :: "nkind \<Rightarrow> char \<Rightarrow> bool" where
  "in_number k c =
     (is_digit c \<or> is_letter c \<or> c = CHR ''.'' \<or> (k = KExp \<and> (c = CHR ''+'' \<or> c = CHR ''-'')))"

fun pnum_char :: "nkind \<Rightarrow> string \<Rightarrow> ptok list \<Rightarrow> char \<Rightarrow> bool \<Rightarrow> pmode \<times> ptok list" where
  "pnum_char k acc ts c True = (MNum (num_more k c) (c # acc), ts)"
| "pnum_char k acc ts c False = ptop (Number (rev acc) # ts) c (pclass c)"

datatype qclass = QClose | QEscape | QPlain

definition qclass :: "char \<Rightarrow> char \<Rightarrow> qclass" where
  "qclass q c = (if c = q then QClose else if c = CHR 0x5C then QEscape else QPlain)"

fun pstr_char :: "char \<Rightarrow> string \<Rightarrow> ptok list \<Rightarrow> char \<Rightarrow> qclass \<Rightarrow> pmode \<times> ptok list" where
  "pstr_char q acc ts c QClose = (MTop, Str (rev acc) # ts)"
| "pstr_char q acc ts c QEscape = (MStrEsc q (c # acc), ts)"
| "pstr_char q acc ts c QPlain = (MStr q (c # acc), ts)"

datatype oclass = OFraction | OLonger | ODone

definition oclass :: "string \<Rightarrow> char \<Rightarrow> oclass" where
  "oclass acc c =
     (if acc = ''.'' \<and> is_digit c then OFraction
      else if acc @ [c] \<in> set operators then OLonger
      else ODone)"

fun op_char :: "string \<Rightarrow> ptok list \<Rightarrow> char \<Rightarrow> oclass \<Rightarrow> pmode \<times> ptok list" where
  "op_char acc ts c OFraction = (MNum KDec (c # rev acc), ts)"
| "op_char acc ts c OLonger = (MOp (acc @ [c]), ts)"
| "op_char acc ts c ODone = ptop (Op acc # ts) c (pclass c)"

fun py_step :: "pmode \<times> ptok list \<Rightarrow> char \<Rightarrow> pmode \<times> ptok list" where
  "py_step (MTop, ts) c = ptop ts c (pclass c)"
| "py_step (MName acc, ts) c = name_char acc ts c (is_letter c \<or> is_digit c)"
| "py_step (MNum k acc, ts) c = pnum_char k acc ts c (in_number k c)"
| "py_step (MStr q acc, ts) c = pstr_char q acc ts c (qclass q c)"
| "py_step (MStrEsc q acc, ts) c = (MStr q (c # acc), ts)"
| "py_step (MOp acc, ts) c = op_char acc ts c (oclass acc c)"
| "py_step (MComment, ts) c = (MComment, ts)"

fun py_run :: "pmode \<times> ptok list \<Rightarrow> string \<Rightarrow> pmode \<times> ptok list" where
  "py_run st [] = st"
| "py_run st (c # cs) = py_run (py_step st c) cs"

fun py_end :: "pmode \<times> ptok list \<Rightarrow> ptok list" where
  "py_end (MTop, ts) = rev ts"
| "py_end (MComment, ts) = rev ts"
| "py_end (MName acc, ts) = rev (Name (rev acc) # ts)"
| "py_end (MNum k acc, ts) = rev (Number (rev acc) # ts)"
| "py_end (MOp acc, ts) = rev (Op acc # ts)"
| "py_end (MStr q acc, ts) = rev (Stray # ts)"
| "py_end (MStrEsc q acc, ts) = rev (Stray # ts)"

definition tokenize :: "string \<Rightarrow> ptok list" where
  "tokenize l = py_end (py_run (MTop, []) l)"

fun indented :: "string \<Rightarrow> bool" where
  "indented [] = False"
| "indented (c # cs) = (c = CHR '' '' \<or> c = CHR 0x09)"

text \<open>A fragment with its lines cut into tokens; each line keeps whether it is indented.\<close>

type_synonym pline = "bool \<times> ptok list"

definition scan_line :: "string \<Rightarrow> pline" where
  "scan_line l = (indented l, tokenize l)"

definition scan_snippet :: "string list \<Rightarrow> pline list" where
  "scan_snippet = map scan_line"

section \<open>Statements of a fragment\<close>

text \<open>
  What the claims ask of the fragments is read off the tokens of each line: which kind of
  statement the line is, which names it binds and which names it reads.
\<close>

definition reserved :: "string list" where
  "reserved =
     [''and'', ''as'', ''assert'', ''break'', ''class'', ''continue'', ''def'', ''del'',
      ''elif'', ''else'', ''except'', ''exec'', ''finally'', ''for'', ''from'', ''global'',
      ''if'', ''import'', ''in'', ''is'', ''lambda'', ''not'', ''or'', ''pass'', ''print'',
      ''raise'', ''return'', ''try'', ''while'', ''with'', ''yield'']"

datatype item = IName string | IOpen | IClose | IDot | IComma | IAssign | IOp string | IOther

definition op_item :: "string \<Rightarrow> item" where
  "op_item s =
     (if s = ''('' \<or> s = ''['' \<or> s = ''{'' then IOpen
      else if s = '')'' \<or> s = '']'' \<or> s = ''}'' then IClose
      else if s = '','' then IComma
      else if s = ''='' then IAssign
      else if s = ''.'' then IDot
      else IOp s)"

fun item_of :: "ptok \<Rightarrow> item" where
  "item_of (Name n) = IName n"
| "item_of (Op s) = op_item s"
| "item_of _ = IOther"

text \<open>
  A line is cut at the \<^verbatim>\<open>=\<close> signs outside brackets: the parts before the last one are the
  targets of an assignment (\<^verbatim>\<open>a = b = value\<close>), the last part is the value.
\<close>

fun pred :: "nat \<Rightarrow> nat" where
  "pred 0 = 0"
| "pred (Suc n) = n"

fun split_assign :: "nat \<Rightarrow> item list \<Rightarrow> item list list \<Rightarrow> item list \<Rightarrow> item list list" where
  "split_assign d cur done [] = rev (rev cur # done)"
| "split_assign 0 cur done (IAssign # is) = split_assign 0 [] (rev cur # done) is"
| "split_assign d cur done (IOpen # is) = split_assign (Suc d) (IOpen # cur) done is"
| "split_assign d cur done (IClose # is) = split_assign (pred d) (IClose # cur) done is"
| "split_assign d cur done (i # is) = split_assign d (i # cur) done is"

datatype stmt =
    Blank
  | ClassDef string
  | FuncDef string
  | Import
  | Return
  | Compound string
  | Keyword string
  | Assign "string list"
  | Expr
  | Malformed

definition compound :: "string list" where
  "compound = [''if'', ''elif'', ''else'', ''for'', ''while'', ''try'', ''except'', ''finally'', ''with'']"

fun def_name :: "(string \<Rightarrow> stmt) \<Rightarrow> item list \<Rightarrow> stmt" where
  "def_name f (IName n # is) = f n"
| "def_name f _ = Malformed"

definition keyword_stmt :: "string \<Rightarrow> item list \<Rightarrow> stmt" where
  "keyword_stmt k is =
     (if k = ''class'' then def_name ClassDef is
      else if k = ''def'' then def_name FuncDef is
      else if k = ''from'' \<or> k = ''import'' then Import
      else if k = ''return'' then Return
      else if k \<in> set compound then Compound k
      else Keyword k)"

fun simple_target :: "item list \<Rightarrow> string list" where
  "simple_target [IName n] = [n]"
| "simple_target _ = []"

fun targets :: "item list list \<Rightarrow> string list" where
  "targets (a # b # segs) = simple_target a @ targets (b # segs)"
| "targets _ = []"

fun assign_or_expr :: "item list list \<Rightarrow> stmt" where
  "assign_or_expr (a # b # segs) = Assign (targets (a # b # segs))"
| "assign_or_expr _ = Expr"

fun head_stmt :: "bool \<Rightarrow> string \<Rightarrow> item list \<Rightarrow> stmt" where
  "head_stmt True n is = keyword_stmt n is"
| "head_stmt False n is = assign_or_expr (split_assign 0 [] [] (IName n # is))"

fun stmt_of :: "item list \<Rightarrow> stmt" where
  "stmt_of [] = Blank"
| "stmt_of (IName n # is) = head_stmt (n \<in> set reserved) n is"
| "stmt_of is = assign_or_expr (split_assign 0 [] [] is)"

text \<open>
  The names a run of tokens reads: every name except the attribute after a dot and the
  keyword of a keyword argument (\<^verbatim>\<open>domain=mesh\<close> inside the brackets of a call).
  Reserved words are taken out at the end.
\<close>

fun loads :: "item list \<Rightarrow> string list" where
  "loads [] = []"
| "loads (IDot # IName n # is) = loads is"
| "loads (IName n # IAssign # is) = loads is"
| "loads (IName n # is) = n # loads is"
| "loads (i # is) = loads is"

fun target_loads :: "item list \<Rightarrow> string list" where
  "target_loads [IName n] = []"
| "target_loads seg = loads seg"

fun parts_loads :: "item list list \<Rightarrow> string list" where
  "parts_loads [] = []"
| "parts_loads [v] = loads v"
| "parts_loads (a # segs) = target_loads a @ parts_loads segs"

text \<open>
  The parameters of a \<^verbatim>\<open>def\<close>: the names that start an entry of its bracket, after the
  stars of \<^verbatim>\<open>*args\<close> and \<^verbatim>\<open>**kwargs\<close>.
\<close>

fun is_zero :: "nat \<Rightarrow> bool" where
  "is_zero 0 = True"
| "is_zero (Suc n) = False"

fun params :: "nat \<Rightarrow> bool \<Rightarrow> item list \<Rightarrow> string list" where
  "params d b [] = []"
| "params d b (IOpen # is) = params (Suc d) (is_zero d) is"
| "params d b (IClose # is) = params (pred d) False is"
| "params d b (IComma # is) = params d (is_zero (pred d)) is"
| "params d True (IName n # is) = n # params d False is"
| "params d True (IOp s # is) = params d True is"
| "params d b (i # is) = params d False is"

definition outer :: "string list \<Rightarrow> string list \<Rightarrow> string list" where
  "outer ls ns = filter (\<lambda>n. n \<notin> set ls) ns"

text \<open>
  The names an import binds by name: the name after \<^verbatim>\<open>as\<close> where there is one, else the first
  name of the module or member. \<^verbatim>\<open>from m import *\<close> binds every public name of the module
  \<^verbatim>\<open>m\<close>; which names these are is known to the module only, so the import is kept as the
  event \<open>Star m\<close> and a name that no statement has bound is traced back to it.
\<close>

datatype imode = IStart | IRest | IAs

fun as_mode :: "bool \<Rightarrow> imode" where
  "as_mode True = IAs"
| "as_mode False = IRest"

fun import_step :: "imode \<times> string list \<Rightarrow> item \<Rightarrow> imode \<times> string list" where
  "import_step (IStart, acc) (IName n) = (IRest, n # acc)"
| "import_step (IRest, acc) (IName n) = (as_mode (n = ''as''), acc)"
| "import_step (IAs, acc) (IName n) = (IRest, n # tl acc)"
| "import_step (m, acc) IComma = (IStart, acc)"
| "import_step (m, acc) i = (m, acc)"

fun import_run :: "imode \<times> string list \<Rightarrow> item list \<Rightarrow> imode \<times> string list" where
  "import_run st [] = st"
| "import_run st (i # is) = import_run (import_step st i) is"

definition named_imports :: "item list \<Rightarrow> string list" where
  "named_imports is = rev (snd (import_run (IStart, []) is))"

definition after_import :: "item list \<Rightarrow> item list" where
  "after_import is = drop 1 (dropWhile (\<lambda>i. i \<noteq> IName ''import'') is)"

fun dotted :: "item \<Rightarrow> string" where
  "dotted (IName n) = n"
| "dotted IDot = ''.''"
| "dotted _ = []"

definition module_of :: "item list \<Rightarrow> string" where
  "module_of is = concat (map dotted (takeWhile (\<lambda>i. i \<noteq> IName ''import'') (drop 1 is)))"

datatype event = Reads string | Binds string | Star string

definition import_events :: "item list \<Rightarrow> event list" where
  "import_events is =
     (if after_import is = [IOp ''*''] then [Star (module_of is)]
      else map Binds (named_imports (after_import is)))"

definition index :: "'a list \<Rightarrow> (nat \<times> 'a) list" where
  "index xs = zip [0..<length xs] xs"

subsection \<open>What the parser refuses\<close>

text \<open>
  Two conditions that every fragment accepted by the Python parser meets. The tokenizer
  counts the open brackets and joins the lines inside them, so at the end of the input
  the count is zero. And the target of an assignment is a name, an attribute, a
  subscript or a list of targets: it has no arithmetic or comparison operator outside
  brackets (\<^verbatim>\<open>SyntaxError: can't assign to operator\<close>).
\<close>

definition arithmetic :: "string list" where
  "arithmetic =
     [''+'', ''-'', ''*'', ''/'', ''%'', ''**'', ''//'', ''<<'', ''>>'', ''&'', ''|'', ''^'', ''~'',
      ''<'', ''>'', ''<='', ''>='', ''=='', ''!='', ''<>'']"

fun level :: "int \<Rightarrow> item list \<Rightarrow> int" where
  "level n [] = n"
| "level n (IOpen # is) = level (n + 1) is"
| "level n (IClose # is) = level (n - 1) is"
| "level n (i # is) = level n is"

fun level_lines :: "int \<Rightarrow> item list list \<Rightarrow> int" where
  "level_lines n [] = n"
| "level_lines n (is # ls) = level_lines (level n is) ls"

fun has_operator :: "nat \<Rightarrow> item list \<Rightarrow> bool" where
  "has_operator d [] = False"
| "has_operator 0 (IOp s # is) = (s \<in> set arithmetic \<or> has_operator 0 is)"
| "has_operator d (IOpen # is) = has_operator (Suc d) is"
| "has_operator d (IClose # is) = has_operator (pred d) is"
| "has_operator d (i # is) = has_operator d is"

fun operator_target :: "stmt \<Rightarrow> item list list \<Rightarrow> bool" where
  "operator_target (Assign ns) segs = list_ex (has_operator 0) (butlast segs)"
| "operator_target _ segs = False"

definition assigns_to_operator :: "item list \<Rightarrow> bool" where
  "assigns_to_operator is = operator_target (stmt_of is) (split_assign 0 [] [] is)"

datatype defect = OpenBrackets int | OperatorTarget nat | StrayCharacter nat

fun bracket_defect :: "int \<Rightarrow> defect list" where
  "bracket_defect n = (if n = 0 then [] else [OpenBrackets n])"

definition line_numbers :: "('a \<Rightarrow> bool) \<Rightarrow> 'a list \<Rightarrow> nat list" where
  "line_numbers P ls = map fst (filter (\<lambda>l. P (snd l)) (index ls))"

definition token_defects :: "ptok list list \<Rightarrow> item list list \<Rightarrow> defect list" where
  "token_defects ts is =
     bracket_defect (level_lines 0 is)
     @ map OperatorTarget (line_numbers assigns_to_operator is)
     @ map StrayCharacter (line_numbers (\<lambda>l. Stray \<in> set l) ts)"

definition tokens_defects :: "ptok list list \<Rightarrow> defect list" where
  "tokens_defects ts = token_defects ts (map (map item_of) ts)"

definition defects :: "string list \<Rightarrow> defect list" where
  "defects sn = tokens_defects (map tokenize sn)"

subsection \<open>Statements as Python reads them\<close>

text \<open>
  Python joins the lines inside open brackets into one statement. A statement that the
  parser refuses for one of the reasons above, or whose brackets are never closed, is
  \<open>Malformed\<close>, whatever its first tokens look like.
\<close>

datatype joining = Closed | Unclosed int pline

fun settle :: "int \<Rightarrow> pline \<Rightarrow> pline list \<Rightarrow> joining \<times> pline list" where
  "settle n l done = (if 0 < n then (Unclosed n l, done) else (Closed, l # done))"

fun join_step :: "joining \<times> pline list \<Rightarrow> pline \<Rightarrow> joining \<times> pline list" where
  "join_step (Closed, done) (ind, ts) = settle (level 0 (map item_of ts)) (ind, ts) done"
| "join_step (Unclosed n (ind0, ts0), done) (ind, ts) =
     settle (level n (map item_of ts)) (ind0, ts0 @ ts) done"

fun join_run :: "joining \<times> pline list \<Rightarrow> pline list \<Rightarrow> joining \<times> pline list" where
  "join_run st [] = st"
| "join_run st (l # ls) = join_run (join_step st l) ls"

fun join_end :: "joining \<times> pline list \<Rightarrow> pline list" where
  "join_end (Closed, done) = rev done"
| "join_end (Unclosed n l, done) = rev (l # done)"

definition logical_lines :: "string list \<Rightarrow> pline list" where
  "logical_lines sn = join_end (join_run (Closed, []) (scan_snippet sn))"

definition refused_line :: "ptok list \<Rightarrow> item list \<Rightarrow> bool" where
  "refused_line ts is = (Stray \<in> set ts \<or> level 0 is \<noteq> 0 \<or> assigns_to_operator is)"

fun checked :: "bool \<Rightarrow> item list \<Rightarrow> stmt" where
  "checked True is = Malformed"
| "checked False is = stmt_of is"

definition statement_of :: "ptok list \<Rightarrow> item list \<Rightarrow> stmt" where
  "statement_of ts is = checked (refused_line ts is) is"

fun statement :: "pline \<Rightarrow> stmt" where
  "statement (ind, ts) = statement_of ts (map item_of ts)"

definition statements :: "string list \<Rightarrow> stmt list" where
  "statements sn = map statement (logical_lines sn)"

fun class_name :: "stmt \<Rightarrow> string list" where
  "class_name (ClassDef n) = [n]"
| "class_name _ = []"

definition class_names :: "string list \<Rightarrow> string list" where
  "class_names sn = concat (map class_name (statements sn))"

text \<open>
  The text of the class definitions of a fragment, as tokens: each line that starts a
  class, and the indented lines that follow it.
\<close>

fun is_class :: "stmt \<Rightarrow> bool" where
  "is_class (ClassDef n) = True"
| "is_class _ = False"

fun keep_line :: "bool \<Rightarrow> ptok list \<Rightarrow> ptok list list" where
  "keep_line True (t # ts) = [t # ts]"
| "keep_line _ _ = []"

fun class_step :: "bool \<times> ptok list list \<Rightarrow> pline \<Rightarrow> bool \<times> ptok list list" where
  "class_step (inside, acc) (True, ts) = (inside, acc @ keep_line inside ts)"
| "class_step (inside, acc) (False, ts) =
     (is_class (statement (False, ts)), acc @ keep_line (is_class (statement (False, ts))) ts)"

fun class_run :: "bool \<times> ptok list list \<Rightarrow> pline list \<Rightarrow> bool \<times> ptok list list" where
  "class_run st [] = st"
| "class_run st (l # ls) = class_run (class_step st l) ls"

definition class_lines :: "string list \<Rightarrow> ptok list list" where
  "class_lines sn = snd (class_run (False, []) (logical_lines sn))"

fun name_in :: "string list \<Rightarrow> ptok \<Rightarrow> bool" where
  "name_in ws (Name n) = (n \<in> set ws)"
| "name_in ws _ = False"

definition words :: "string list \<Rightarrow> string list \<Rightarrow> ptok list" where
  "words ws sn = concat (map (\<lambda>l. filter (name_in ws) (tokenize l)) sn)"

definition boolean_words :: "string list" where
  "boolean_words = [''and'', ''or'', ''not'']"

definition error_words :: "string list" where
  "error_words = [''try'', ''except'', ''finally'', ''raise'', ''assert'']"

text \<open>
  The functions a fragment calls by name: a name with an opening round bracket after it
  that is no attribute (no dot before it), no reserved word and not the name that a
  \<^verbatim>\<open>def\<close> or \<^verbatim>\<open>class\<close> line introduces.
\<close>

fun called :: "string option \<Rightarrow> bool \<Rightarrow> string list" where
  "called (Some n) True = [n]"
| "called _ _ = []"

fun pending :: "bool \<Rightarrow> string \<Rightarrow> string option" where
  "pending True n = None"
| "pending False n = Some n"

fun call_step :: "bool \<times> string option \<times> string list \<Rightarrow> ptok \<Rightarrow> bool \<times> string option \<times> string list" where
  "call_step (dot, pend, acc) (Op s) = (s = ''.'', None, acc @ called pend (s = ''(''))"
| "call_step (dot, pend, acc) (Name n) = (False, pending dot n, acc)"
| "call_step (dot, pend, acc) t = (False, None, acc)"

fun call_run :: "bool \<times> string option \<times> string list \<Rightarrow> ptok list \<Rightarrow> bool \<times> string option \<times> string list" where
  "call_run st [] = st"
| "call_run st (t # ts) = call_run (call_step st t) ts"

fun introduced :: "stmt \<Rightarrow> nat" where
  "introduced (ClassDef n) = 2"
| "introduced (FuncDef n) = 2"
| "introduced _ = 0"

fun line_calls :: "pline \<Rightarrow> string list" where
  "line_calls (ind, ts) =
     snd (snd (call_run (False, None, []) (drop (introduced (stmt_of (map item_of ts))) ts)))"

definition called_names :: "string list \<Rightarrow> string list" where
  "called_names sn = remdups (outer reserved (concat (map line_calls (logical_lines sn))))"

subsection \<open>Names that pass from one fragment to another\<close>

text \<open>
  Scope. A name bound on a line that is not indented is bound in the module. Inside the
  body of a \<^verbatim>\<open>def\<close> the parameters and the names assigned there are local, and reading
  them is no reference to the module. A statement reads before it binds
  (\<^verbatim>\<open>E = variable(E)\<close>). A name read in the body of a \<^verbatim>\<open>def\<close> is looked up when the function
  is called; it is counted where the \<^verbatim>\<open>def\<close> stands.
\<close>

fun only_outside :: "bool \<Rightarrow> 'a list \<Rightarrow> 'a list" where
  "only_outside True xs = []"
| "only_outside False xs = xs"

definition reads_of :: "string list \<Rightarrow> string list \<Rightarrow> event list" where
  "reads_of ls ns = map Reads (outer (ls @ reserved) ns)"

fun stmt_events :: "string list \<Rightarrow> bool \<Rightarrow> item list \<Rightarrow> stmt \<Rightarrow> string list \<times> event list" where
  "stmt_events ls ind is (FuncDef n) =
     (params 0 False is, reads_of (params 0 False is) (loads (drop 2 is)) @ only_outside ind [Binds n])"
| "stmt_events ls ind is (ClassDef n) =
     ([], reads_of [] (loads (drop 2 is)) @ only_outside ind [Binds n])"
| "stmt_events ls ind is Import = (ls, only_outside ind (import_events is))"
| "stmt_events ls True is (Assign ns) =
     (ns @ ls, reads_of ls (parts_loads (split_assign 0 [] [] is)))"
| "stmt_events ls False is (Assign ns) =
     ([], reads_of [] (parts_loads (split_assign 0 [] [] is)) @ map Binds ns)"
| "stmt_events ls True is st = (ls, reads_of ls (loads is))"
| "stmt_events ls False is st = ([], reads_of [] (loads is))"

text \<open>
  The events of a fragment, in the order of its statements. Python compiles a fragment
  before it runs any of it: a fragment with a malformed statement runs nothing, so it
  reads and binds nothing.
\<close>

type_synonym running = "string list \<times> event list \<times> bool"

fun add_events :: "event list \<Rightarrow> bool \<Rightarrow> string list \<times> event list \<Rightarrow> running" where
  "add_events evs ok (ls, new) = (ls, evs @ new, ok)"

definition events_stmt :: "running \<Rightarrow> bool \<Rightarrow> item list \<Rightarrow> stmt \<Rightarrow> running" where
  "events_stmt r ind is st =
     add_events (fst (snd r)) (snd (snd r) \<and> st \<noteq> Malformed) (stmt_events (fst r) ind is st)"

definition events_items :: "running \<Rightarrow> bool \<Rightarrow> ptok list \<Rightarrow> item list \<Rightarrow> running" where
  "events_items r ind ts is = events_stmt r ind is (statement_of ts is)"

fun events_line :: "running \<Rightarrow> pline \<Rightarrow> running" where
  "events_line r (ind, ts) = events_items r ind ts (map item_of ts)"

fun events_run :: "running \<Rightarrow> pline list \<Rightarrow> running" where
  "events_run r [] = r"
| "events_run r (l # ls) = events_run (events_line r l) ls"

fun events_end :: "running \<Rightarrow> event list" where
  "events_end (ls, evs, True) = evs"
| "events_end (ls, evs, False) = []"

definition fragment_events :: "string list \<Rightarrow> event list" where
  "fragment_events sn = events_end (events_run ([], [], True) (logical_lines sn))"
















text \<open>The names that the fragments bind, and the called names among them.\<close>

fun bound :: "event \<Rightarrow> string list" where
  "bound (Binds n) = [n]"
| "bound e = []"

definition bound_names :: "string list list \<Rightarrow> string list" where
  "bound_names sns = remdups (concat (map bound (concat (map fragment_events sns))))"

definition own_calls :: "string list list \<Rightarrow> string list" where
  "own_calls sns =
     (let bs = bound_names sns in filter (\<lambda>n. n \<in> set bs) (remdups (concat (map called_names sns))))"

subsection \<open>Output to files\<close>

text \<open>
  The library writes an object to a file by \<^verbatim>\<open>handle << object\<close>, where the handle was made
  by \<^verbatim>\<open>File("name")\<close>. \<open>persisted\<close> follows the handles bound in a fragment and lists
  what is written: the object and the name of the file.
\<close>

fun handle_of :: "ptok \<Rightarrow> ptok \<Rightarrow> (string \<times> string) list" where
  "handle_of (Name h) (Str f) = [(h, f)]"
| "handle_of _ _ = []"

definition file_open :: "ptok list \<Rightarrow> (string \<times> string) list" where
  "file_open ts =
     (if length ts = 6 \<and> take 3 (drop 1 ts) = [Op ''='', Name ''File'', Op ''(''] \<and> drop 5 ts = [Op '')'']
      then handle_of (ts ! 0) (ts ! 4) else [])"

fun written :: "(string \<times> string) list \<Rightarrow> ptok \<Rightarrow> ptok \<Rightarrow> (string \<times> string) list" where
  "written hs (Name h) (Name obj) = map (\<lambda>f. (obj, f)) (map snd (filter (\<lambda>p. fst p = h) (take 1 hs)))"
| "written hs _ _ = []"

definition stream_write :: "(string \<times> string) list \<Rightarrow> ptok list \<Rightarrow> (string \<times> string) list" where
  "stream_write hs ts =
     (if length ts = 3 \<and> take 1 (drop 1 ts) = [Op ''<<''] then written hs (ts ! 0) (ts ! 2) else [])"

fun persist_run ::
  "(string \<times> string) list \<Rightarrow> ptok list list \<Rightarrow> (string \<times> string) list" where
  "persist_run hs [] = []"
| "persist_run hs (ts # ls) = stream_write hs ts @ persist_run (file_open ts @ hs) ls"

definition persisted :: "string list \<Rightarrow> (string \<times> string) list" where
  "persisted sn = persist_run [] (map tokenize sn)"

definition output_tokens :: "ptok list \<Rightarrow> bool" where
  "output_tokens ts = (Op ''<<'' \<in> set ts \<or> Name ''File'' \<in> set ts)"

definition output_lines :: "string list \<Rightarrow> nat list" where
  "output_lines sn = line_numbers output_tokens (map tokenize sn)"

section \<open>The subdomains fragment\<close>

text \<open>
  The fragment defines two classes of its own and marks the facets of the mesh with them:
  \<^verbatim>\<open>
  class GammaN(SubDomain):
      def inside(self, x, on_boundary):
          tol = 1E-14
          return on_boundary and near(x[0], 0, tol)

  class GammaD(SubDomain):
      def inside(self, x, on_boundary):
          tol = 1E-14
          return on_boundary and near(x[0], 0, tol)
  NeumannBoundary = GammaN()
  DirichletBoundary = GammaD()
  boundary_markers = FacetFunction('size_t', mesh)
  boundary_markers.set_all(0)
  DirichletBoundary.mark(boundary_markers,1)
  NeumannBoundary.mark(boundary_markers,2)
  \<close>
  Numbers are kept as they are written (\<open>FloatLit m e\<close> is the literal \<open>m\<close>E\<open>e\<close>): the
  methods do no arithmetic, they hand the numbers to the library's \<^verbatim>\<open>near\<close>, which is a
  parameter of the model. Reading \<^verbatim>\<open>x[0]\<close> of a point without coordinates raises
  \<^verbatim>\<open>IndexError\<close>, and \<^verbatim>\<open>a and b\<close> does not evaluate \<^verbatim>\<open>b\<close> when \<^verbatim>\<open>a\<close> is false.
\<close>

datatype number = IntLit int | FloatLit int int

datatype py_error = IndexError

type_synonym point = "number list"

type_synonym near_fn = "number \<Rightarrow> number \<Rightarrow> number \<Rightarrow> bool"

type_synonym inside_fn = "point \<Rightarrow> bool \<Rightarrow> py_error + bool"

definition subscript :: "'a list \<Rightarrow> nat \<Rightarrow> py_error + 'a" where
  "subscript xs i = (if i < length xs then Inr (xs ! i) else Inl IndexError)"

definition GammaN_inside :: "near_fn \<Rightarrow> inside_fn" where
  "GammaN_inside near x on_boundary =
     (let tol = FloatLit 1 (- 14) in
      if on_boundary then
        (case subscript x 0 of Inl e \<Rightarrow> Inl e | Inr x0 \<Rightarrow> Inr (near x0 (IntLit 0) tol))
      else Inr False)"

definition GammaD_inside :: "near_fn \<Rightarrow> inside_fn" where
  "GammaD_inside near x on_boundary =
     (let tol = FloatLit 1 (- 14) in
      if on_boundary then
        (case subscript x 0 of Inl e \<Rightarrow> Inl e | Inr x0 \<Rightarrow> Inr (near x0 (IntLit 0) tol))
      else Inr False)"

record subdomain =
  inside :: inside_fn

definition GammaN :: "near_fn \<Rightarrow> subdomain" where
  "GammaN near = \<lparr>inside = GammaN_inside near\<rparr>"

definition GammaD :: "near_fn \<Rightarrow> subdomain" where
  "GammaD near = \<lparr>inside = GammaD_inside near\<rparr>"

definition NeumannBoundary :: "near_fn \<Rightarrow> subdomain" where
  "NeumannBoundary near = GammaN near"

definition DirichletBoundary :: "near_fn \<Rightarrow> subdomain" where
  "DirichletBoundary near = GammaD near"

text \<open>The region of a subdomain: the points, with their boundary flag, that it accepts.\<close>

definition region :: "subdomain \<Rightarrow> (point \<times> bool) set" where
  "region S = {(x, on_boundary). inside S x on_boundary = Inr True}"

text \<open>
  The library is not part of the repository. Its two calls on the markers are given the
  behaviour that its documentation states: \<^verbatim>\<open>set_all(v)\<close> gives every facet the value
  \<open>v\<close>, and \<^verbatim>\<open>S.mark(markers, v)\<close> gives the value \<open>v\<close> to the facets that the subdomain
  \<open>S\<close> covers and leaves the others as they are. Which facets a subdomain covers is decided
  by the library from the \<open>inside\<close> method and the geometry of the mesh; this is the
  parameter \<open>covers\<close>. The markers are a mutable object, passed on from call to call.
\<close>

type_synonym 'f markers = "'f \<Rightarrow> nat"

definition set_all :: "'f markers \<Rightarrow> nat \<Rightarrow> 'f markers" where
  "set_all m v = (\<lambda>f. v)"

definition mark :: "(inside_fn \<Rightarrow> 'f \<Rightarrow> bool) \<Rightarrow> subdomain \<Rightarrow> 'f markers \<Rightarrow> nat \<Rightarrow> 'f markers" where
  "mark covers S m v = (\<lambda>f. if covers (inside S) f then v else m f)"

definition boundary_markers :: "(inside_fn \<Rightarrow> 'f \<Rightarrow> bool) \<Rightarrow> near_fn \<Rightarrow> 'f markers \<Rightarrow> 'f markers" where
  "boundary_markers covers near fresh =
     (let m0 = set_all fresh 0;
          m1 = mark covers (DirichletBoundary near) m0 1;
          m2 = mark covers (NeumannBoundary near) m1 2
      in m2)"

section \<open>The solving and plotting fragment\<close>

text \<open>
  \<^verbatim>\<open>
  solve(WeakForm==forcingFcn,u,bc)
  file = File("u.pvd")
  file << u
  plot(u)
  \<close>
  Every call goes to the library, which is a parameter: a call takes the state of the
  world and either raises or returns a value and the new state. The names that the
  fragment reads without binding them are its arguments.
\<close>

type_synonym ('e, 'a, 'w) call = "'w \<Rightarrow> 'e + 'a \<times> 'w"

record ('e, 'v, 'w) dolfin =
  equation :: "'v \<Rightarrow> 'v \<Rightarrow> ('e, 'v, 'w) call"
  solve :: "'v \<Rightarrow> 'v \<Rightarrow> 'v \<Rightarrow> ('e, 'v, 'w) call"
  File :: "string \<Rightarrow> ('e, 'v, 'w) call"
  lshift :: "'v \<Rightarrow> 'v \<Rightarrow> ('e, 'v, 'w) call"
  plot :: "'v \<Rightarrow> ('e, 'v, 'w) call"

definition and_then :: "('e, 'a, 'w) call \<Rightarrow> ('a \<Rightarrow> ('e, 'b, 'w) call) \<Rightarrow> ('e, 'b, 'w) call" where
  "and_then c k w = (case c w of Inl e \<Rightarrow> Inl e | Inr (a, w') \<Rightarrow> k a w')"

definition solving_and_plotting ::
  "('e, 'v, 'w) dolfin \<Rightarrow> 'v \<Rightarrow> 'v \<Rightarrow> 'v \<Rightarrow> 'v \<Rightarrow> ('e, 'v, 'w) call" where
  "solving_and_plotting lib WeakForm forcingFcn u bc =
     and_then (equation lib WeakForm forcingFcn) (\<lambda>eq.
     and_then (solve lib eq u bc) (\<lambda>_.
     and_then (File lib ''u.pvd'') (\<lambda>file.
     and_then (lshift lib file u) (\<lambda>_.
     plot lib u))))"

section \<open>The weak form of the pressure fragment\<close>

text \<open>
  The pressure fragment ends with \<^verbatim>\<open>WeakForm = -Stiffness + k^2*MassMatrix + NeumannBC\<close>.
  What the line computes depends on how Python groups its operators. From the weakest to
  the strongest: \<^verbatim>\<open>|\<close>, \<^verbatim>\<open>^\<close>, \<^verbatim>\<open>&\<close>, the shifts, \<^verbatim>\<open>+\<close> and \<^verbatim>\<open>-\<close>, then \<^verbatim>\<open>*\<close>, \<^verbatim>\<open>/\<close>, \<^verbatim>\<open>//\<close> and
  \<^verbatim>\<open>%\<close>, then the signs \<^verbatim>\<open>-x\<close>, \<^verbatim>\<open>+x\<close>, \<^verbatim>\<open>~x\<close>, then \<^verbatim>\<open>**\<close>. All group to the left except
  \<^verbatim>\<open>**\<close>. The parser below reads an expression of names, whole numbers, these operators
  and round brackets with two stacks, one of operands and one of the operators that wait
  for their right operand.
\<close>

datatype unop = Neg | Pos | Invert

datatype binop =
    BitOr | BitXor | BitAnd | LShift | RShift | Add | Sub | Mul | Div | FloorDiv | Mod | Pow

datatype expr = Var string | Lit int | Unary unop expr | Binary binop expr expr

datatype waiting = WBinary binop | WUnary unop | WBracket

fun strength :: "binop \<Rightarrow> nat" where
  "strength BitOr = 1"
| "strength BitXor = 2"
| "strength BitAnd = 3"
| "strength LShift = 4"
| "strength RShift = 4"
| "strength Add = 5"
| "strength Sub = 5"
| "strength Mul = 6"
| "strength Div = 6"
| "strength FloorDiv = 6"
| "strength Mod = 6"
| "strength Pow = 8"

text \<open>
  Does the operator that waits on the stack take the operand before the operator that
  comes in? It does if it binds more strongly, or as strongly and the two group to the
  left. A sign has the strength 7.
\<close>

fun goes_first :: "waiting \<Rightarrow> binop \<Rightarrow> bool" where
  "goes_first WBracket b = False"
| "goes_first (WUnary u) b = (strength b < 7)"
| "goes_first (WBinary a) b = (strength b < strength a \<or> (strength b = strength a \<and> b \<noteq> Pow))"

fun apply_waiting :: "waiting \<Rightarrow> expr list \<Rightarrow> expr list" where
  "apply_waiting (WBinary b) (r # l # es) = Binary b l r # es"
| "apply_waiting (WUnary u) (x # es) = Unary u x # es"
| "apply_waiting w es = []"

fun reduce :: "binop \<Rightarrow> expr list \<Rightarrow> waiting list \<Rightarrow> expr list \<times> waiting list" where
  "reduce b es [] = (es, [])"
| "reduce b es (w # ws) =
     (if goes_first w b then reduce b (apply_waiting w es) ws else (es, w # ws))"

fun close_bracket :: "expr list \<Rightarrow> waiting list \<Rightarrow> (expr list \<times> waiting list) option" where
  "close_bracket es [] = None"
| "close_bracket es (WBracket # ws) = Some (es, ws)"
| "close_bracket es (w # ws) = close_bracket (apply_waiting w es) ws"

fun finish :: "expr list \<Rightarrow> waiting list \<Rightarrow> expr option" where
  "finish [e] [] = Some e"
| "finish es [] = None"
| "finish es (WBracket # ws) = None"
| "finish es (w # ws) = finish (apply_waiting w es) ws"

definition binary_op :: "string \<Rightarrow> binop option" where
  "binary_op s =
     (if s = ''+'' then Some Add else if s = ''-'' then Some Sub
      else if s = ''*'' then Some Mul else if s = ''/'' then Some Div
      else if s = ''//'' then Some FloorDiv else if s = ''%'' then Some Mod
      else if s = ''**'' then Some Pow
      else if s = ''^'' then Some BitXor else if s = ''|'' then Some BitOr
      else if s = ''&'' then Some BitAnd
      else if s = ''<<'' then Some LShift else if s = ''>>'' then Some RShift
      else None)"

definition unary_op :: "string \<Rightarrow> unop option" where
  "unary_op s =
     (if s = ''-'' then Some Neg else if s = ''+'' then Some Pos
      else if s = ''~'' then Some Invert else None)"

datatype parsing = Operand "expr list" "waiting list" | Operator "expr list" "waiting list" | NoParse

fun push_unary :: "expr list \<Rightarrow> waiting list \<Rightarrow> bool \<Rightarrow> unop option \<Rightarrow> parsing" where
  "push_unary es ws True u = Operand es (WBracket # ws)"
| "push_unary es ws False (Some u) = Operand es (WUnary u # ws)"
| "push_unary es ws False None = NoParse"

text \<open>
  A whole number in decimal: digits only and no leading zero, which would make it octal in
  Python 2.
\<close>

definition whole_number :: "string \<Rightarrow> bool" where
  "whole_number s = (list_all is_digit s \<and> s \<noteq> [] \<and> (take 1 s \<noteq> ''0'' \<or> s = ''0''))"

fun push_number :: "expr list \<Rightarrow> waiting list \<Rightarrow> string \<Rightarrow> bool \<Rightarrow> parsing" where
  "push_number es ws s True = Operator (Lit (dec_num 0 s) # es) ws"
| "push_number es ws s False = NoParse"

fun push_name :: "expr list \<Rightarrow> waiting list \<Rightarrow> string \<Rightarrow> bool \<Rightarrow> parsing" where
  "push_name es ws n True = NoParse"
| "push_name es ws n False = Operator (Var n # es) ws"

fun waiting_for :: "binop \<Rightarrow> expr list \<times> waiting list \<Rightarrow> parsing" where
  "waiting_for b (es, ws) = Operand es (WBinary b # ws)"

fun after_bracket :: "(expr list \<times> waiting list) option \<Rightarrow> parsing" where
  "after_bracket None = NoParse"
| "after_bracket (Some (es, ws)) = Operator es ws"

fun push_binary :: "expr list \<Rightarrow> waiting list \<Rightarrow> bool \<Rightarrow> binop option \<Rightarrow> parsing" where
  "push_binary es ws True b = after_bracket (close_bracket es ws)"
| "push_binary es ws False (Some b) = waiting_for b (reduce b es ws)"
| "push_binary es ws False None = NoParse"

fun parse_step :: "parsing \<Rightarrow> ptok \<Rightarrow> parsing" where
  "parse_step (Operand es ws) (Name n) = push_name es ws n (n \<in> set reserved)"
| "parse_step (Operand es ws) (Number s) = push_number es ws s (whole_number s)"
| "parse_step (Operand es ws) (Op s) = push_unary es ws (s = ''('') (unary_op s)"
| "parse_step (Operator es ws) (Op s) = push_binary es ws (s = '')'') (binary_op s)"
| "parse_step p t = NoParse"

fun parse_tokens :: "parsing \<Rightarrow> ptok list \<Rightarrow> parsing" where
  "parse_tokens p [] = p"
| "parse_tokens p (t # ts) = parse_tokens (parse_step p t) ts"

fun expr_end :: "parsing \<Rightarrow> expr option" where
  "expr_end (Operator es ws) = finish es ws"
| "expr_end p = None"

definition parse_expr :: "ptok list \<Rightarrow> expr option" where
  "parse_expr ts = expr_end (parse_tokens (Operand [] []) ts)"

text \<open>
  The value of an expression when its names stand for integers. Python's integers have
  no bound; \<^verbatim>\<open>^\<close>, \<^verbatim>\<open>|\<close>, \<^verbatim>\<open>&\<close> and \<^verbatim>\<open>~\<close> work on the bits of the two's complement; in Python 2
  \<^verbatim>\<open>/\<close> on integers is the floor division. \<open>None\<close> stands for a name without a value and
  for what is no integer or raises: a division by zero, a negative shift, a negative
  exponent.
\<close>

fun unary :: "unop \<Rightarrow> int \<Rightarrow> int" where
  "unary Neg a = - a"
| "unary Pos a = a"
| "unary Invert a = not a"

fun binary :: "binop \<Rightarrow> int \<Rightarrow> int \<Rightarrow> int option" where
  "binary Add a b = Some (a + b)"
| "binary Sub a b = Some (a - b)"
| "binary Mul a b = Some (a * b)"
| "binary Div a b = (if b = 0 then None else Some (a div b))"
| "binary FloorDiv a b = (if b = 0 then None else Some (a div b))"
| "binary Mod a b = (if b = 0 then None else Some (a mod b))"
| "binary Pow a b = (if b < 0 then None else Some (a ^ nat b))"
| "binary BitXor a b = Some (xor a b)"
| "binary BitOr a b = Some (or a b)"
| "binary BitAnd a b = Some (and a b)"
| "binary LShift a b = (if b < 0 then None else Some (push_bit (nat b) a))"
| "binary RShift a b = (if b < 0 then None else Some (drop_bit (nat b) a))"

fun value_of :: "(string \<Rightarrow> int option) \<Rightarrow> expr \<Rightarrow> int option" where
  "value_of env (Var n) = env n"
| "value_of env (Lit i) = Some i"
| "value_of env (Unary u e) = map_option (unary u) (value_of env e)"
| "value_of env (Binary b l r) =
     (case value_of env l of
        None \<Rightarrow> None
      | Some x \<Rightarrow> (case value_of env r of None \<Rightarrow> None | Some y \<Rightarrow> binary b x y))"

fun value_opt :: "(string \<Rightarrow> int option) \<Rightarrow> expr option \<Rightarrow> int option" where
  "value_opt env None = None"
| "value_opt env (Some e) = value_of env e"

text \<open>The right side of a plain assignment \<^verbatim>\<open>name = value\<close>.\<close>

fun assigned_value :: "ptok list \<Rightarrow> ptok list" where
  "assigned_value (Name x # Op s # ts) = (if s = ''='' then ts else [])"
| "assigned_value ts = []"

definition weak_form_line :: string where
  "weak_form_line = last (notebook_snippets ! 4)"

definition weak_form_written :: "expr option" where
  "weak_form_written = parse_expr (assigned_value (tokenize weak_form_line))"

text \<open>
  The three tokens \<^verbatim>\<open>k^2\<close> as they stand in the line, read on their own, and the square
  \<^verbatim>\<open>k**2\<close> that the Helmholtz weak form of the notebook asks for in their place; the line
  with that square is \<open>weak_form_intended\<close>.
\<close>

definition k_hat_2 :: "expr option" where
  "k_hat_2 = parse_expr (take 3 (drop 3 (assigned_value (tokenize weak_form_line))))"

definition k_squared :: "expr option" where
  "k_squared = parse_expr (tokenize ''k**2'')"

definition weak_form_intended :: "expr option" where
  "weak_form_intended = parse_expr (tokenize ''-Stiffness + k**2*MassMatrix + NeumannBC'')"

definition names :: "int \<Rightarrow> int \<Rightarrow> int \<Rightarrow> int \<Rightarrow> string \<Rightarrow> int option" where
  "names Stiffness k MassMatrix NeumannBC =
     [''Stiffness'' \<mapsto> Stiffness, ''k'' \<mapsto> k, ''MassMatrix'' \<mapsto> MassMatrix,
      ''NeumannBC'' \<mapsto> NeumannBC]"

section \<open>Evaluation of the notebook\<close>

text \<open>
  The code fragments of the notebook, in the order of the cells: the import, the mesh, the
  two function spaces, the pressure weak form, the stiffness tensor, the weak form of linear
  elasticity, nonlinear elasticity, the subdomains, and solving and plotting.
\<close>

lemma snippets_eval:
  \<open>notebook_snippets = [
    [''from dolfin import *''],
    [''mesh = Mesh('mesh.xml')''],
    [''V = FunctionSpace(mesh,'CG',2)'',
     ''p = TrialFunction(V) #pressure trial function'',
     ''dp = TestFunction(V) #pressure test function''],
    [''V = VectorFunctionSpace(mesh,'CG',2)'',
     ''u = TrialFunction(V) #Displacement trial function'',
     ''du = TestFunction(V) #Displacement test function''],
    [''n = FacetNormal(mesh)'',
     ''StiffnessMatrix = 1/rho*dot(grad(p),grad(dp))*dx'',
     ''MassMatrix = 1/rho*p*dp*dx'',
     ''NeumannBC = 1/rho*dp*dot(p,n)*ds'',
     ''forcingFcn = 1/rho*dp*f*dx'',
     ''WeakForm = -Stiffness + k^2*MassMatrix + NeumannBC''],
    [''I = identity(2)# Second order identity tensor'',
     ''C = as_tensor(K*I[i,j]*I[k,l] + mu*(I[i,k]*I[j,l] + I[i,l]*I[j,k] - 2./3*I[i,j]*I[k,l],(i,j,k,l))''],
    [''StrainU = 0.5*(grad(u)+transpose(grad(u))) = sym(grad(u))'',
     ''StrainDu = 0.5*(grad(du)+transpose(grad(du)))'',
     ''StressU = as_tensor(C[i,j,k,l]*StrainU[k,l],(i,j))'',
     ''WeakForm = inner(StressU,StrainDu)*dx - omega**2*rho*dot(u,du)*dx - p*dot(du,n)*ds''],
    [''F = grad(u)+I'',
     ''C = F.T*F #Right Cauchy-Green tensor'',
     ''E = 0.5*(C-I) #Finite Strain tensor'',
     ''W = lmbda/2*tr(E)**2+mu*tr(E*E) # St. Venant-Kirchhoff Strain-energy density'',
     ''E = variable(E)'',
     ''S = diff(W,E) #Second Piola-Stress tensor''],
    [''class GammaN(SubDomain):'',
     ''    def inside(self, x, on_boundary):'',
     ''        tol = 1E-14'',
     ''        return on_boundary and near(x[0], 0, tol)'',
     ''        '',
     ''class GammaD(SubDomain):'',
     ''    def inside(self, x, on_boundary):'',
     ''        tol = 1E-14'',
     ''        return on_boundary and near(x[0], 0, tol)'',
     ''NeumannBoundary = GammaN()'',
     ''DirichletBoundary = GammaD()'',
     ''boundary_markers = FacetFunction('size_t', mesh)'',
     ''boundary_markers.set_all(0)'',
     ''DirichletBoundary.mark(boundary_markers,1)'',
     ''NeumannBoundary.mark(boundary_markers,2)'',
     ''ds = Measure('ds', domain=mesh, subdomain_data=boundary_markers)'',
     ''bc = DirichletBC(V,Constant(0.0),DirichletBoundary)''],
    [''solve(WeakForm==forcingFcn,u,bc)'',
     ''file = File("u.pvd")'',
     ''file << u'',
     ''plot(u)'']]\<close>
  by code_simp

lemma statements_eval:
  "map statements notebook_snippets =
     [[Import],
      [Assign [''mesh'']],
      [Assign [''V''], Assign [''p''], Assign [''dp'']],
      [Assign [''V''], Assign [''u''], Assign [''du'']],
      [Assign [''n''], Assign [''StiffnessMatrix''], Assign [''MassMatrix''],
       Assign [''NeumannBC''], Assign [''forcingFcn''], Assign [''WeakForm'']],
      [Assign [''I''], Malformed],
      [Malformed, Assign [''StrainDu''], Assign [''StressU''], Assign [''WeakForm'']],
      [Assign [''F''], Assign [''C''], Assign [''E''], Assign [''W''], Assign [''E''],
       Assign [''S'']],
      [ClassDef ''GammaN'', FuncDef ''inside'', Assign [''tol''], Return, Blank,
       ClassDef ''GammaD'', FuncDef ''inside'', Assign [''tol''], Return,
       Assign [''NeumannBoundary''], Assign [''DirichletBoundary''],
       Assign [''boundary_markers''], Expr, Expr, Expr, Assign [''ds''], Assign [''bc'']],
      [Expr, Assign [''file''], Expr, Expr]]"
  unfolding snippets_eval by code_simp

lemma class_names_eval:
  "map class_names notebook_snippets = [[], [], [], [], [], [], [], [], [''GammaN'', ''GammaD''], []]"
proof -
  have "map class_names notebook_snippets
      = map (\<lambda>ss. concat (map class_name ss)) (map statements notebook_snippets)"
    by (simp add: class_names_def)
  then show ?thesis
    unfolding statements_eval by simp
qed

lemma class_lines_eval:
  "map class_lines notebook_snippets =
     [[], [], [], [], [], [], [], [],
      [[Name ''class'', Name ''GammaN'', Op ''('', Name ''SubDomain'', Op '')'', Op '':''],
       [Name ''def'', Name ''inside'', Op ''('', Name ''self'', Op '','', Name ''x'', Op '','',
        Name ''on_boundary'', Op '')'', Op '':''],
       [Name ''tol'', Op ''='', Number ''1E-14''],
       [Name ''return'', Name ''on_boundary'', Name ''and'', Name ''near'', Op ''('', Name ''x'',
        Op ''['', Number ''0'', Op '']'', Op '','', Number ''0'', Op '','', Name ''tol'', Op '')''],
       [Name ''class'', Name ''GammaD'', Op ''('', Name ''SubDomain'', Op '')'', Op '':''],
       [Name ''def'', Name ''inside'', Op ''('', Name ''self'', Op '','', Name ''x'', Op '','',
        Name ''on_boundary'', Op '')'', Op '':''],
       [Name ''tol'', Op ''='', Number ''1E-14''],
       [Name ''return'', Name ''on_boundary'', Name ''and'', Name ''near'', Op ''('', Name ''x'',
        Op ''['', Number ''0'', Op '']'', Op '','', Number ''0'', Op '','', Name ''tol'', Op '')'']],
      []]"
  unfolding snippets_eval by code_simp

lemma boolean_eval:
  "map (words boolean_words) notebook_snippets =
     [[], [], [], [], [], [], [], [], [Name ''and'', Name ''and''], []]"
  unfolding snippets_eval by code_simp

lemma called_eval:
  "map called_names notebook_snippets =
     [[],
      [''Mesh''],
      [''FunctionSpace'', ''TrialFunction'', ''TestFunction''],
      [''VectorFunctionSpace'', ''TrialFunction'', ''TestFunction''],
      [''FacetNormal'', ''grad'', ''dot''],
      [''identity'', ''as_tensor''],
      [''sym'', ''transpose'', ''grad'', ''as_tensor'', ''inner'', ''dot''],
      [''grad'', ''tr'', ''variable'', ''diff''],
      [''near'', ''GammaN'', ''GammaD'', ''FacetFunction'', ''Measure'', ''DirichletBC'',
       ''Constant''],
      [''solve'', ''File'', ''plot'']]"
  unfolding snippets_eval by code_simp

lemma own_calls_eval:
  "own_calls notebook_snippets = [''GammaN'', ''GammaD'']"
  unfolding snippets_eval by code_simp




lemma persisted_eval:
  "map persisted notebook_snippets = [[], [], [], [], [], [], [], [], [], [(''u'', ''u.pvd'')]]"
  unfolding snippets_eval by code_simp

lemma output_eval:
  "map output_lines notebook_snippets = [[], [], [], [], [], [], [], [], [], [1, 2]]"
  unfolding snippets_eval by code_simp

lemma inside_same: "GammaN_inside near = GammaD_inside near"
  by (rule ext, rule ext) (simp add: GammaN_inside_def GammaD_inside_def)

lemma xor_2_div_4: "xor (k::int) 2 div 4 = k div 4"
proof -
  have "drop_bit 2 (xor k 2) = drop_bit 2 k"
    by (simp add: drop_bit_xor)
  then show ?thesis
    by (simp add: drop_bit_eq_div)
qed

lemma xor_2_upper: "xor (k::int) 2 \<le> k + 3"
proof -
  have a: "xor k 2 = 4 * (xor k 2 div 4) + xor k 2 mod 4" by simp
  have b: "k = 4 * (k div 4) + k mod 4" by simp
  have c: "xor k 2 mod 4 < 4" "0 \<le> k mod 4" by simp_all
  show ?thesis using a b c xor_2_div_4 [of k] by linarith
qed

lemma written_eval:
  "weak_form_written =
     Some (Binary BitXor
             (Binary Add (Unary Neg (Var ''Stiffness'')) (Var ''k''))
             (Binary Add (Binary Mul (Lit 2) (Var ''MassMatrix'')) (Var ''NeumannBC'')))"
  unfolding weak_form_written_def weak_form_line_def snippets_eval by code_simp

lemma intended_eval:
  "weak_form_intended =
     Some (Binary Add
             (Binary Add (Unary Neg (Var ''Stiffness''))
                (Binary Mul (Binary Pow (Var ''k'') (Lit 2)) (Var ''MassMatrix'')))
             (Var ''NeumannBC''))"
  by code_simp

lemma k_hat_2_eval:
  "k_hat_2 = Some (Binary BitXor (Var ''k'') (Lit 2))"
  unfolding k_hat_2_def weak_form_line_def snippets_eval by code_simp

lemma k_squared_eval:
  "k_squared = Some (Binary Pow (Var ''k'') (Lit 2))"
  by code_simp

lemma xor_2_not_square:
  assumes "0 \<le> k"
  shows "xor (k::int) 2 \<noteq> k ^ 2"
proof (cases "k \<le> 2")
  case True
  with assms have "k = 0 \<or> k = 1 \<or> k = 2" by auto
  then show ?thesis by auto
next
  case False
  then have k3: "3 \<le> k" by simp
  then have "3 * k \<le> k * k" by (intro mult_right_mono) auto
  with k3 have "k + 3 < k * k" by linarith
  then show ?thesis
    using xor_2_upper [of k] by (simp add: power2_eq_square)
qed

section \<open>The claims\<close>

text \<open>
  C1. The claim: every code fragment is a direct call of library functions, and the
  repository has no class definition and no boolean predicate logic of its own. It fails:
  the subdomains fragment defines classes and a boolean predicate.
\<close>

theorem C1_classes_and_predicates_exist:
  "\<not> (concat (map class_names notebook_snippets) = []
      \<and> concat (map (words boolean_words) notebook_snippets) = [])"
  unfolding class_names_eval boolean_eval by simp

text \<open>
  C1 as amended. The statements of the fragments are imports, assignments and expression
  statements, and none is a compound statement, with two exceptions. The subdomains
  fragment defines the two classes \<open>GammaN\<close> and \<open>GammaD\<close>, each with the base \<open>SubDomain\<close>
  and one method \<open>inside(self, x, on_boundary)\<close> that binds \<^verbatim>\<open>tol = 1E-14\<close> and returns
  \<^verbatim>\<open>on_boundary and near(x[0], 0, tol)\<close>; these two \<^verbatim>\<open>and\<close> are the only boolean operators of
  the notebook. And two statements are malformed: the second of the stiffness tensor
  fragment and the first of the linear elasticity fragment. The functions that the
  fragments call by name are the ones listed, and the only ones among them that a
  fragment of the notebook binds are \<open>GammaN\<close> and \<open>GammaD\<close>.
\<close>

theorem C1_statements_of_the_fragments:
  "map statements notebook_snippets =
     [[Import],
      [Assign [''mesh'']],
      [Assign [''V''], Assign [''p''], Assign [''dp'']],
      [Assign [''V''], Assign [''u''], Assign [''du'']],
      [Assign [''n''], Assign [''StiffnessMatrix''], Assign [''MassMatrix''],
       Assign [''NeumannBC''], Assign [''forcingFcn''], Assign [''WeakForm'']],
      [Assign [''I''], Malformed],
      [Malformed, Assign [''StrainDu''], Assign [''StressU''], Assign [''WeakForm'']],
      [Assign [''F''], Assign [''C''], Assign [''E''], Assign [''W''], Assign [''E''],
       Assign [''S'']],
      [ClassDef ''GammaN'', FuncDef ''inside'', Assign [''tol''], Return, Blank,
       ClassDef ''GammaD'', FuncDef ''inside'', Assign [''tol''], Return,
       Assign [''NeumannBoundary''], Assign [''DirichletBoundary''],
       Assign [''boundary_markers''], Expr, Expr, Expr, Assign [''ds''], Assign [''bc'']],
      [Expr, Assign [''file''], Expr, Expr]]
   \<and> map class_lines notebook_snippets =
     [[], [], [], [], [], [], [], [],
      [[Name ''class'', Name ''GammaN'', Op ''('', Name ''SubDomain'', Op '')'', Op '':''],
       [Name ''def'', Name ''inside'', Op ''('', Name ''self'', Op '','', Name ''x'', Op '','',
        Name ''on_boundary'', Op '')'', Op '':''],
       [Name ''tol'', Op ''='', Number ''1E-14''],
       [Name ''return'', Name ''on_boundary'', Name ''and'', Name ''near'', Op ''('', Name ''x'',
        Op ''['', Number ''0'', Op '']'', Op '','', Number ''0'', Op '','', Name ''tol'', Op '')''],
       [Name ''class'', Name ''GammaD'', Op ''('', Name ''SubDomain'', Op '')'', Op '':''],
       [Name ''def'', Name ''inside'', Op ''('', Name ''self'', Op '','', Name ''x'', Op '','',
        Name ''on_boundary'', Op '')'', Op '':''],
       [Name ''tol'', Op ''='', Number ''1E-14''],
       [Name ''return'', Name ''on_boundary'', Name ''and'', Name ''near'', Op ''('', Name ''x'',
        Op ''['', Number ''0'', Op '']'', Op '','', Number ''0'', Op '','', Name ''tol'', Op '')'']],
      []]
   \<and> map (words boolean_words) notebook_snippets =
     [[], [], [], [], [], [], [], [], [Name ''and'', Name ''and''], []]
   \<and> map called_names notebook_snippets =
     [[],
      [''Mesh''],
      [''FunctionSpace'', ''TrialFunction'', ''TestFunction''],
      [''VectorFunctionSpace'', ''TrialFunction'', ''TestFunction''],
      [''FacetNormal'', ''grad'', ''dot''],
      [''identity'', ''as_tensor''],
      [''sym'', ''transpose'', ''grad'', ''as_tensor'', ''inner'', ''dot''],
      [''grad'', ''tr'', ''variable'', ''diff''],
      [''near'', ''GammaN'', ''GammaD'', ''FacetFunction'', ''Measure'', ''DirichletBC'',
       ''Constant''],
      [''solve'', ''File'', ''plot'']]
   \<and> own_calls notebook_snippets = [''GammaN'', ''GammaD'']"
  by (simp only: statements_eval class_lines_eval boolean_eval called_eval own_calls_eval)

text \<open>
  C2. The claim: the region marked for the Neumann condition and the region marked for the
  Dirichlet condition are different sets of boundary points. In the code the two classes
  have the same text, line for line, so the two regions are one and the same set, whatever
  the library's \<^verbatim>\<open>near\<close> computes.
\<close>

theorem C2_regions_coincide:
  "region (NeumannBoundary near) = region (DirichletBoundary near)
   \<and> take 3 (drop 1 (notebook_snippets ! 8)) = take 3 (drop 6 (notebook_snippets ! 8))"
proof
  show "region (NeumannBoundary near) = region (DirichletBoundary near)"
    by (simp add: region_def NeumannBoundary_def DirichletBoundary_def GammaN_def GammaD_def
        inside_same)
  show "take 3 (drop 1 (notebook_snippets ! 8)) = take 3 (drop 6 (notebook_snippets ! 8))"
    unfolding snippets_eval by simp
qed

text \<open>
  C3. The claim: every fragment is accepted by the Python parser. Two fragments are not.
  The stiffness tensor fragment (number 5) ends with one bracket still open, and the first
  line of the linear elasticity fragment (number 6) assigns to the product
  \<^verbatim>\<open>0.5*(grad(u)+transpose(grad(u)))\<close>.
\<close>

theorem C3_fragments_the_parser_refuses:
  "map defects notebook_snippets =
     [[], [], [], [], [], [OpenBrackets 1], [OperatorTarget 0], [], [], []]"
  unfolding snippets_eval by code_simp



text \<open>
  C5. The claim: no fragment writes a domain object to a file. It fails: the last fragment
  writes \<open>u\<close> to the file \<^verbatim>\<open>u.pvd\<close>.
\<close>

theorem C5_an_object_is_written:
  "concat (map persisted notebook_snippets) \<noteq> []"
  by (simp add: persisted_eval)

text \<open>
  C5 as amended. The one object written to a file is \<open>u\<close>, which the solving and plotting
  fragment writes to \<^verbatim>\<open>u.pvd\<close>; the only lines of the notebook that open a \<^verbatim>\<open>File\<close> or
  write with \<^verbatim>\<open><<\<close> are lines 1 and 2 of that fragment.
\<close>

theorem C5_only_the_solution_is_written:
  "map persisted notebook_snippets = [[], [], [], [], [], [], [], [], [], [(''u'', ''u.pvd'')]]
   \<and> map output_lines notebook_snippets = [[], [], [], [], [], [], [], [], [], [1, 2]]"
  by (simp only: persisted_eval output_eval)

text \<open>
  C6. No fragment has a word of error handling (\<^verbatim>\<open>try\<close>, \<^verbatim>\<open>except\<close>, \<^verbatim>\<open>finally\<close>,
  \<^verbatim>\<open>raise\<close>, \<^verbatim>\<open>assert\<close>) or of a compound statement that could test for a failure. So
  the solving and plotting fragment fails exactly when one of its library calls fails
  after the calls before it have returned, and with the error of that call.
\<close>

theorem C6_failures_propagate:
  "concat (map (words (error_words @ compound)) notebook_snippets) = []
   \<and> (solving_and_plotting lib WeakForm forcingFcn u bc w = Inl e \<longleftrightarrow>
        equation lib WeakForm forcingFcn w = Inl e
        \<or> (\<exists>eq w1. equation lib WeakForm forcingFcn w = Inr (eq, w1)
             \<and> (solve lib eq u bc w1 = Inl e
                \<or> (\<exists>r w2. solve lib eq u bc w1 = Inr (r, w2)
                     \<and> (File lib ''u.pvd'' w2 = Inl e
                        \<or> (\<exists>file w3. File lib ''u.pvd'' w2 = Inr (file, w3)
                             \<and> (lshift lib file u w3 = Inl e
                                \<or> (\<exists>r' w4. lshift lib file u w3 = Inr (r', w4)
                                     \<and> plot lib u w4 = Inl e))))))))"
proof
  show "concat (map (words (error_words @ compound)) notebook_snippets) = []"
    unfolding snippets_eval by code_simp
  show "solving_and_plotting lib WeakForm forcingFcn u bc w = Inl e \<longleftrightarrow>
        equation lib WeakForm forcingFcn w = Inl e
        \<or> (\<exists>eq w1. equation lib WeakForm forcingFcn w = Inr (eq, w1)
             \<and> (solve lib eq u bc w1 = Inl e
                \<or> (\<exists>r w2. solve lib eq u bc w1 = Inr (r, w2)
                     \<and> (File lib ''u.pvd'' w2 = Inl e
                        \<or> (\<exists>file w3. File lib ''u.pvd'' w2 = Inr (file, w3)
                             \<and> (lshift lib file u w3 = Inl e
                                \<or> (\<exists>r' w4. lshift lib file u w3 = Inr (r', w4)
                                     \<and> plot lib u w4 = Inl e)))))))"
    unfolding solving_and_plotting_def and_then_def
    by (auto split: sum.splits prod.splits)
qed

text \<open>
  C7. The file is a JSON document, its top level has an array \<open>cells\<close> and the member
  \<open>nbformat\<close> with the value 4, and every cell has a \<open>cell_type\<close> and a \<open>source\<close>.
\<close>

theorem C7_notebook_is_well_formed:
  "notebook_doc \<noteq> None \<and> well_formed_notebook notebook_doc"
  by code_simp

text \<open>
  C8. For every point and every boundary flag the two \<open>inside\<close> methods return the same
  value; for a point with a first coordinate that value is
  \<^verbatim>\<open>on_boundary and near(x[0], 0, 1E-14)\<close>.
\<close>

theorem C8_inside_methods_agree:
  "inside (GammaN near) x on_boundary = inside (GammaD near) x on_boundary
   \<and> (x \<noteq> [] \<longrightarrow>
        inside (GammaN near) x on_boundary
          = Inr (on_boundary \<and> near (x ! 0) (IntLit 0) (FloatLit 1 (- 14))))"
  by (cases x) (simp_all add: GammaN_def GammaD_def GammaN_inside_def GammaD_inside_def
      subscript_def)

theorem C8_inside_methods_agree_witness:
  "[FloatLit 0 0, FloatLit 5 (- 1)] \<noteq> []
   \<and> inside (GammaN (\<lambda>a b c. a = FloatLit 0 0)) [FloatLit 0 0, FloatLit 5 (- 1)] True
       = inside (GammaD (\<lambda>a b c. a = FloatLit 0 0)) [FloatLit 0 0, FloatLit 5 (- 1)] True
   \<and> inside (GammaN (\<lambda>a b c. a = FloatLit 0 0)) [FloatLit 0 0, FloatLit 5 (- 1)] True = Inr True"
proof -
  let ?near = "\<lambda>a b c :: number. a = FloatLit 0 0"
  let ?x = "[FloatLit 0 0, FloatLit 5 (- 1)]"
  have point: "?x \<noteq> []"
    by simp
  from C8_inside_methods_agree [of ?near ?x True] point
  have same: "inside (GammaN ?near) ?x True = inside (GammaD ?near) ?x True"
    and val: "inside (GammaN ?near) ?x True = Inr (True \<and> ?near (?x ! 0) (IntLit 0) (FloatLit 1 (- 14)))"
    by blast+
  from val have "inside (GammaN ?near) ?x True = Inr True"
    by simp
  with same point show ?thesis
    by blast
qed

text \<open>
  C9. After \<^verbatim>\<open>set_all(0)\<close>, the Dirichlet mark with 1 and the Neumann mark with 2, a facet
  that the shared predicate covers has the marker 2 and every other facet has the marker
  0: the two subdomains cover the same facets, and no facet is left with the marker 1.
\<close>

theorem C9_markers_after_marking:
  "covers (inside (NeumannBoundary near)) = covers (inside (DirichletBoundary near))
   \<and> boundary_markers covers near fresh f
       = (if covers (inside (DirichletBoundary near)) f then 2 else 0)
   \<and> boundary_markers covers near fresh f \<noteq> 1"
  by (simp add: boundary_markers_def set_all_def mark_def NeumannBoundary_def
      DirichletBoundary_def GammaN_def GammaD_def inside_same)

text \<open>
  C10. The claim: the coefficient of the mass matrix is written \<^verbatim>\<open>k^2\<close>, the exclusive or
  of \<open>k\<close> and 2, and so differs from the square for every \<open>k\<close> that is not negative. It
  fails on the line as Python reads it: with \<open>Stiffness = 0\<close>, \<open>k = 1\<close>, \<open>MassMatrix = 1\<close>
  and \<open>NeumannBC = 1\<close> the line as written and the line with the square both give 2; and
  with \<open>k = 3\<close> and \<open>MassMatrix = 2\<close> the line gives 7, not the exclusive or of 3 and 2
  times the mass matrix, which is 2.
\<close>

theorem C10_written_and_intended_can_agree:
  "value_opt (names 0 1 1 1) weak_form_written = Some 2
   \<and> value_opt (names 0 1 1 1) weak_form_intended = Some 2
   \<and> value_opt (names 0 3 2 0) weak_form_written = Some 7
   \<and> - 0 + xor 3 2 * 2 + 0 = (2::int)"
  unfolding written_eval intended_eval by (simp add: names_def)

text \<open>
  C10 as amended. In the line \<^verbatim>\<open>WeakForm = -Stiffness + k^2*MassMatrix + NeumannBC\<close> the
  operator \<^verbatim>\<open>^\<close> is the exclusive or and binds more weakly than \<^verbatim>\<open>+\<close> and \<^verbatim>\<open>*\<close>: on
  integers the line computes the exclusive or of \<open>-Stiffness + k\<close> and
  \<open>2*MassMatrix + NeumannBC\<close>, where the weak form asks for
  \<open>-Stiffness + k**2*MassMatrix + NeumannBC\<close>. The tokens \<^verbatim>\<open>k^2\<close> read on their own are the
  exclusive or of \<open>k\<close> and 2, which differs from the square of \<open>k\<close> for every integer
  \<open>k\<close> that is not negative.
\<close>

theorem C10_weak_form_as_python_reads_it:
  "weak_form_written =
     Some (Binary BitXor
             (Binary Add (Unary Neg (Var ''Stiffness'')) (Var ''k''))
             (Binary Add (Binary Mul (Lit 2) (Var ''MassMatrix'')) (Var ''NeumannBC'')))
   \<and> value_opt (names Stiffness k MassMatrix NeumannBC) weak_form_written
       = Some (xor (- Stiffness + k) (2 * MassMatrix + NeumannBC))
   \<and> value_opt (names Stiffness k MassMatrix NeumannBC) weak_form_intended
       = Some (- Stiffness + k ^ 2 * MassMatrix + NeumannBC)
   \<and> value_opt (names Stiffness k MassMatrix NeumannBC) k_hat_2 = Some (xor k 2)
   \<and> value_opt (names Stiffness k MassMatrix NeumannBC) k_squared = Some (k ^ 2)
   \<and> (0 \<le> k \<longrightarrow>
        value_opt (names Stiffness k MassMatrix NeumannBC) k_hat_2
          \<noteq> value_opt (names Stiffness k MassMatrix NeumannBC) k_squared)"
proof -
  have hat: "value_opt (names Stiffness k MassMatrix NeumannBC) k_hat_2 = Some (xor k 2)"
    unfolding k_hat_2_eval by (simp add: names_def)
  have square: "value_opt (names Stiffness k MassMatrix NeumannBC) k_squared = Some (k ^ 2)"
    unfolding k_squared_eval by (simp add: names_def)
  have written: "value_opt (names Stiffness k MassMatrix NeumannBC) weak_form_written
      = Some (xor (- Stiffness + k) (2 * MassMatrix + NeumannBC))"
    unfolding written_eval by (simp add: names_def)
  have intended: "value_opt (names Stiffness k MassMatrix NeumannBC) weak_form_intended
      = Some (- Stiffness + k ^ 2 * MassMatrix + NeumannBC)"
    unfolding intended_eval by (simp add: names_def)
  have differ: "0 \<le> k \<longrightarrow>
      value_opt (names Stiffness k MassMatrix NeumannBC) k_hat_2
        \<noteq> value_opt (names Stiffness k MassMatrix NeumannBC) k_squared"
    using xor_2_not_square [of k] by (simp add: hat square)
  from written_eval written intended hat square differ show ?thesis
    by blast
qed

theorem C10_weak_form_as_python_reads_it_witness:
  "(0::int) \<le> 3
   \<and> value_opt (names 0 3 2 0) weak_form_written = Some 7
   \<and> value_opt (names 0 3 2 0) weak_form_intended = Some 18
   \<and> value_opt (names 0 3 2 0) k_hat_2 = Some 1
   \<and> value_opt (names 0 3 2 0) k_squared = Some 9
   \<and> value_opt (names 0 3 2 0) k_hat_2 \<noteq> value_opt (names 0 3 2 0) k_squared"
  using C10_weak_form_as_python_reads_it [of 0 3 2 0] by simp

end
